theory Spec2Isabelle
  imports Main "HOL-Library.Word"
begin

unbundle bit_operations_syntax

section \<open>TEpollSocket: the connection-level byte pump of tepollsocket.cpp\<close>

text \<open>
  The C++ class \<open>TEpollSocket\<close> is embedded as a record, its member functions as HOL
  functions that take the object and return the updated object together with the list of
  externally visible effects they caused, in program order (system calls, system-log lines,
  access-log writes, deletions of send buffers, requests to the epoll dispatcher).

  C++ \<open>int\<close> and \<open>qint64\<close> values are modelled as unbounded \<open>int\<close>: the only arithmetic in
  the file is the byte counter \<open>responseBytes() + len\<close> and the sum in \<open>bufferedBytes()\<close>, and
  no property below depends on values near the machine bounds.
\<close>

subsection \<open>Constants of the system headers\<close>

text \<open>Values of \<open>errno.h\<close> and \<open>sys/epoll.h\<close> on Linux, the platform of epoll.\<close>

definition EAGAIN :: int where "EAGAIN = 11"
definition EPIPE :: int where "EPIPE = 32"
definition ECONNRESET :: int where "ECONNRESET = 104"

definition EPOLLIN :: "32 word" where "EPOLLIN = 0x001"
definition EPOLLOUT :: "32 word" where "EPOLLOUT = 0x004"
definition EPOLLET :: "32 word" where "EPOLLET = 0x80000000"

subsection \<open>Data\<close>

type_synonym QByteArray = string
type_synonym QHostAddress = string
type_synonym THttpRequestHeader = string

record QFile =
  fileName :: string
  contents :: QByteArray

record TAccessLogger =
  responseBytes :: int

definition setResponseBytes :: "int \<Rightarrow> TAccessLogger \<Rightarrow> TAccessLogger" where
  "setResponseBytes n lg = lg\<lparr>responseBytes := n\<rparr>"

text \<open>
  Modelled from the spec: the class \<open>TSendBuffer\<close> (tsendbuffer.h and tsendbuffer.cpp are not
  among the sources). The fields \<open>arrayBuffer\<close> and \<open>bodyFile\<close> are the ones that
  \<open>bufferedBytes()\<close> reads; \<open>bodyFile\<close> is a pointer that may be null. The spec's Outbound
  Buffer has a payload (an in-memory byte sequence, or a header followed by a file-backed
  byte stream with an auto-remove flag), a cursor counting the bytes already consumed, and
  an access logger.
\<close>

record TSendBuffer =
  arrayBuffer :: QByteArray
  bodyFile :: "QFile option"
  fileRemove :: bool
  cursor :: nat
  accesslogger :: TAccessLogger

text \<open>
  Modelled from the spec: the payload of an Outbound Buffer, the in-memory bytes followed by
  the bytes of the file when there is one.
\<close>

definition payload :: "TSendBuffer \<Rightarrow> QByteArray" where
  "payload b = arrayBuffer b @ (case bodyFile b of None \<Rightarrow> [] | Some f \<Rightarrow> contents f)"

text \<open>
  Modelled from the spec: \<open>TSendBuffer::getData(int &size)\<close>, "ask the head buffer for its
  next chunk bounded by the shared send chunk size". The result is the chunk that \<open>data\<close>
  points to; the reference parameter \<open>size\<close> is left at its length (zero when the buffer is
  fully consumed).
\<close>

definition getData :: "TSendBuffer \<Rightarrow> int \<Rightarrow> QByteArray" where
  "getData b sz = take (nat sz) (drop (cursor b) (payload b))"

text \<open>
  Modelled from the spec: \<open>TSendBuffer::seekData(int pos)\<close>, "advance the head buffer's
  cursor by that length".
\<close>

definition seekData :: "int \<Rightarrow> TSendBuffer \<Rightarrow> TSendBuffer" where
  "seekData pos b = b\<lparr>cursor := cursor b + nat pos\<rparr>"

text \<open>
  Modelled from the spec: \<open>TSendBuffer::atEnd()\<close>, the completion predicate, "true when the
  cursor has consumed the entire payload".
\<close>

definition atEnd :: "TSendBuffer \<Rightarrow> bool" where
  "atEnd b = (length (payload b) \<le> cursor b)"

text \<open>The two overloads of \<open>TEpollSocket::createSendBuffer\<close>.\<close>

definition createSendBuffer_file ::
  "QByteArray \<Rightarrow> QFile option \<Rightarrow> bool \<Rightarrow> TAccessLogger \<Rightarrow> TSendBuffer" where
  "createSendBuffer_file header file autoRemove logger =
     \<lparr>arrayBuffer = header, bodyFile = file, fileRemove = autoRemove, cursor = 0,
      accesslogger = logger\<rparr>"

definition createSendBuffer :: "QByteArray \<Rightarrow> TSendBuffer" where
  "createSendBuffer d =
     \<lparr>arrayBuffer = d, bodyFile = None, fileRemove = False, cursor = 0,
      accesslogger = \<lparr>responseBytes = 0\<rparr>\<rparr>"

text \<open>
  The object state of a \<open>TEpollSocket\<close>. \<open>recvBuffer\<close> stands for the receive buffer behind
  the pure virtual \<open>getRecvBuffer\<close>/\<open>seekRecvBuffer\<close>; \<open>deferredDelete\<close> is the state of the
  \<open>QObject\<close> base class: a deferred-delete event is posted for the object (Qt drops a second
  such event for the same receiver).
\<close>

record TEpollSocket =
  deleting :: bool
  myWorkerCounter :: int
  sd :: int
  uuid :: QByteArray
  clientAddr :: QHostAddress
  sendBuf :: "TSendBuffer list"
  recvBuffer :: QByteArray
  deferredDelete :: bool

text \<open>The file-static chunk sizes \<open>sendBufSize\<close> and \<open>recvBufSize\<close>, both initially 0.\<close>

record bufsizes =
  sendBufSize :: int
  recvBufSize :: int

subsection \<open>Effects\<close>

text \<open>
  What a member function does to the world outside the object, one constructor per kind of
  call: the system calls (\<open>tf_accept4\<close>, \<open>getsockopt\<close>, \<open>tf_recv\<close>, \<open>tf_send\<close> with the
  chunk it offers, \<open>tf_close\<close>), \<open>moveToThread\<close>, a line of the system log with its level,
  format and arguments, \<open>TAccessLogger::write()\<close> with the record written, \<open>delete\<close> of a
  send buffer, the requests to \<open>TEpoll\<close> (\<open>modifyPoll\<close> with its event mask, the two
  \<open>setSendData\<close>, \<open>setDisconnect\<close>, \<open>setSwitchToWebSocket\<close>), and the call
  \<open>QObject::deleteLater()\<close> of the base class.
\<close>

datatype log_level = Debug | Warn | Error

datatype log_arg = I int | S string

datatype effect =
    TfAccept4 int
  | Getsockopt int string
  | MoveToThread
  | TfRecv int int
  | TfSend int QByteArray
  | TfClose int
  | SystemLog log_level string "log_arg list"
  | LoggerWrite TAccessLogger
  | DeleteSendBuffer TSendBuffer
  | ModifyPoll "32 word"
  | QObjectDeleteLater
  | SetSendDataFile QByteArray "QFile option" bool TAccessLogger
  | SetSendData QByteArray
  | SetDisconnect
  | SetSwitchToWebSocket THttpRequestHeader

subsection \<open>accept, create, initBuffer and the constructor\<close>

text \<open>
  What the operating system and Qt answer during one \<open>accept\<close>: the result of \<open>tf_accept4\<close>
  with the \<open>errno\<close> and peer address it leaves, the result and value of the two \<open>getsockopt\<close>
  calls, and the byte array of \<open>QUuid::createUuid()\<close>.
\<close>

record accept_env =
  actfd :: int
  accept_errno :: int
  peer :: QHostAddress
  sndbuf_res :: "int \<times> int"
  rcvbuf_res :: "int \<times> int"
  new_uuid :: QByteArray

definition BUF_SIZE :: int where
  "BUF_SIZE = 128 * 1024"

definition initBuffer :: "accept_env \<Rightarrow> int \<Rightarrow> bufsizes \<Rightarrow> bufsizes \<times> effect list" where
  "initBuffer env socketDescriptor g =
     (if sendBufSize g = 0 then
        (\<lparr>sendBufSize = (if fst (sndbuf_res env) < 0 then BUF_SIZE else snd (sndbuf_res env)),
          recvBufSize = (if fst (rcvbuf_res env) < 0 then BUF_SIZE else snd (rcvbuf_res env))\<rparr>,
         [Getsockopt socketDescriptor ''SO_SNDBUF'', Getsockopt socketDescriptor ''SO_RCVBUF''])
      else (g, []))"

text \<open>\<open>QByteArray::mid(pos, len)\<close>; a negative \<open>len\<close> takes everything from \<open>pos\<close>.\<close>

definition mid :: "QByteArray \<Rightarrow> nat \<Rightarrow> int \<Rightarrow> QByteArray" where
  "mid a pos len = (if len < 0 then drop pos a else take (nat len) (drop pos a))"

text \<open>
  The constructor \<open>TEpollSocket(socketDescriptor, address)\<close>, which \<open>new TEpollHttpSocket\<close>
  in \<open>create\<close> runs for its base class; \<open>u\<close> is the byte array of the fresh \<open>QUuid\<close>, braces
  included.
\<close>

definition TEpollSocket_ctor :: "QByteArray \<Rightarrow> int \<Rightarrow> QHostAddress \<Rightarrow> TEpollSocket \<times> effect list" where
  "TEpollSocket_ctor u socketDescriptor address =
     (let uuid' = mid u 1 (int (length u) - 2)
      in (\<lparr>deleting = False, myWorkerCounter = 0, sd = socketDescriptor, uuid = uuid',
           clientAddr = address, sendBuf = [], recvBuffer = [], deferredDelete = False\<rparr>,
          [SystemLog Debug ''TEpollSocket  id:%s'' [S uuid']]))"

definition create ::
  "accept_env \<Rightarrow> bufsizes \<Rightarrow> int \<Rightarrow> QHostAddress \<Rightarrow> TEpollSocket option \<times> bufsizes \<times> effect list" where
  "create env g socketDescriptor address =
     (if socketDescriptor > 0 then
        (let (sock, e1) = TEpollSocket_ctor (new_uuid env) socketDescriptor address;
             (g', e2) = initBuffer env socketDescriptor g
         in (Some sock, g', e1 @ [MoveToThread] @ e2))
      else (None, g, []))"

definition accept ::
  "accept_env \<Rightarrow> bufsizes \<Rightarrow> int \<Rightarrow> TEpollSocket option \<times> bufsizes \<times> effect list" where
  "accept env g listeningSocket =
     (let err = accept_errno env in
      if actfd env < 0 then
        (None, g,
         [TfAccept4 listeningSocket] @
         (if err \<noteq> EAGAIN then [SystemLog Warn ''Failed accept.  errno:%d'' [I err]] else []))
      else
        (case create env g (actfd env) (peer env) of
           (r, g', e) \<Rightarrow> (r, g', [TfAccept4 listeningSocket] @ e)))"

subsection \<open>close and the destructor\<close>

definition close :: "TEpollSocket \<Rightarrow> TEpollSocket \<times> effect list" where
  "close s = (if sd s > 0 then (s\<lparr>sd := 0\<rparr>, [TfClose (sd s)]) else (s, []))"

definition destructor :: "TEpollSocket \<Rightarrow> TEpollSocket \<times> effect list" where
  "destructor s =
     (let (s1, e1) = close s
      in (s1\<lparr>sendBuf := []\<rparr>,
          [SystemLog Debug ''TEpollSocket::destructor'' []] @ e1 @
          map DeleteSendBuffer (sendBuf s1)))"

subsection \<open>recv\<close>

text \<open>
  The operating system as seen by one \<open>recv()\<close> invocation: the answer to the \<open>i\<close>-th call
  \<open>tf_recv(sd, buf, recvBufSize, 0)\<close> is the returned length, the \<open>errno\<close> after the call
  (it is set to 0 before each call) and the bytes written into \<open>buf\<close>.
\<close>

type_synonym recv_os = "nat \<Rightarrow> int \<Rightarrow> int \<Rightarrow> int \<times> int \<times> QByteArray"

text \<open>
  Modelled from the spec: \<open>getRecvBuffer\<close> and \<open>seekRecvBuffer\<close> are pure virtual in this
  class. "Request a writable slice of at least the shared receive chunk size from the
  receive buffer, attempt a non-blocking read into it. Positive length: advance the buffer's
  logical end by that length": the first \<open>len\<close> bytes written into the slice become part of
  the buffer.
\<close>

definition seekRecvBuffer :: "int \<Rightarrow> QByteArray \<Rightarrow> QByteArray \<Rightarrow> QByteArray" where
  "seekRecvBuffer len written rb = rb @ take (nat len) written"

text \<open>
  The \<open>for (;;)\<close> of \<open>recv()\<close>. It ends only at a read of non-positive length, so it is a
  partial function: \<open>None\<close> is the loop that never ends. The result is the captured \<open>errno\<close>,
  the receive buffer and the number of reads that succeeded.
\<close>

partial_function (option)
  recv_loop :: "recv_os \<Rightarrow> int \<Rightarrow> int \<Rightarrow> nat \<Rightarrow> QByteArray \<Rightarrow> (int \<times> QByteArray \<times> nat) option"
where
  "recv_loop os fd sz i rb =
     (case os i fd sz of (len, err, written) \<Rightarrow>
        if len \<le> 0 then Some (err, rb, i)
        else recv_loop os fd sz (Suc i) (seekRecvBuffer len written rb))"

definition recv_switch :: "int \<Rightarrow> int \<Rightarrow> int \<times> effect list" where
  "recv_switch fd err =
     (if err = EAGAIN then (0, [])
      else if err = 0 \<or> err = ECONNRESET then
        (-1, [SystemLog Debug ''Socket disconnected : sd:%d  errno:%d'' [I fd, I err]])
      else (-1, [SystemLog Error ''Failed recv : sd:%d  errno:%d'' [I fd, I err]]))"

definition recv :: "bufsizes \<Rightarrow> recv_os \<Rightarrow> TEpollSocket \<Rightarrow> (int \<times> TEpollSocket \<times> effect list) option" where
  "recv g os s =
     (case recv_loop os (sd s) (recvBufSize g) 0 (recvBuffer s) of
        None \<Rightarrow> None
      | Some (err, rb, n) \<Rightarrow>
          (case recv_switch (sd s) err of
             (ret, e) \<Rightarrow>
               Some (ret, s\<lparr>recvBuffer := rb\<rparr>,
                     replicate (Suc n) (TfRecv (sd s) (recvBufSize g)) @ e)))"

subsection \<open>send\<close>

text \<open>
  The operating system as seen by one \<open>send()\<close> invocation: the answer to the \<open>i\<close>-th call
  \<open>tf_send(sd, data, len, MSG_NOSIGNAL)\<close> is the returned length and the \<open>errno\<close> after the
  call (it is set to 0 before each call).
\<close>

type_synonym send_os = "nat \<Rightarrow> int \<Rightarrow> QByteArray \<Rightarrow> int \<times> int"

text \<open>
  The \<open>for (;;)\<close> of \<open>send()\<close> on the head buffer \<open>buf\<close>, whose access logger is the
  reference \<open>logger\<close>. The state of the loop is the number of \<open>tf_send\<close> calls made, the local
  \<open>err\<close>, the buffer and the effects so far; the result adds the final value of the local
  \<open>len\<close>.
\<close>

function send_loop ::
  "int \<Rightarrow> int \<Rightarrow> send_os \<Rightarrow> nat \<Rightarrow> int \<Rightarrow> TSendBuffer \<Rightarrow> effect list
     \<Rightarrow> int \<times> int \<times> TSendBuffer \<times> effect list" where
  "send_loop fd sz os i err buf effs =
     (let data = getData buf sz; len = int (length data) in
      if len = 0 then (err, len, buf, effs)
      else
        (case os i fd data of (len', err') \<Rightarrow>
           if len' \<le> 0 then (err', len', buf, effs @ [TfSend fd data])
           else
             send_loop fd sz os (Suc i) err'
               ((seekData len' buf)
                  \<lparr>accesslogger :=
                     setResponseBytes (responseBytes (accesslogger buf) + len') (accesslogger buf)\<rparr>)
               (effs @ [TfSend fd data])))"
  by pat_completeness auto
termination
proof (relation "measure (\<lambda>(fd, sz, os, i, err, buf, effs). length (payload buf) - cursor buf)",
    goal_cases)
  case 1
  show ?case by simp
next
  case (2 fd sz os i err buf effs data len len' err')
  from 2(1,2,3) have "getData buf sz \<noteq> []" by auto
  then have lt: "cursor buf < length (payload buf)"
    by (auto simp: getData_def)
  from 2(5) have pos: "0 < nat len'" by simp
  let ?b = "(seekData len' buf)\<lparr>accesslogger :=
              setResponseBytes (responseBytes (accesslogger buf) + len') (accesslogger buf)\<rparr>"
  have "payload ?b = payload buf" and "cursor ?b = cursor buf + nat len'"
    by (simp_all add: payload_def seekData_def)
  with lt pos show ?case by simp
qed

declare send_loop.simps [simp del]

definition send_switch :: "int \<Rightarrow> int \<Rightarrow> int \<Rightarrow> TSendBuffer \<Rightarrow> int \<times> TSendBuffer \<times> effect list" where
  "send_switch fd err len buf =
     (if err = 0 \<or> err = EAGAIN then (0, buf, [])
      else if err = EPIPE then
        (-1, buf\<lparr>accesslogger := setResponseBytes (-1) (accesslogger buf)\<rparr>,
         [SystemLog Debug ''Socket disconnected : sd:%d  errno:%d'' [I fd, I err]])
      else
        (-1, buf\<lparr>accesslogger := setResponseBytes (-1) (accesslogger buf)\<rparr>,
         [SystemLog Error ''Failed send : sd:%d  errno:%d  len:%d'' [I fd, I err, I len]]))"

definition send :: "bufsizes \<Rightarrow> send_os \<Rightarrow> TEpollSocket \<Rightarrow> int \<times> TEpollSocket \<times> effect list" where
  "send g os s =
     (case sendBuf s of
        [] \<Rightarrow> (0, s, [])
      | buf # rest \<Rightarrow>
          if deleting s then (0, s, [])
          else
            (case send_loop (sd s) (sendBufSize g) os 0 0 buf [] of
               (err, len, buf1, e1) \<Rightarrow>
                 (case send_switch (sd s) err len buf1 of
                    (ret, buf2, e2) \<Rightarrow>
                      (let fin = (atEnd buf2 \<or> ret < 0);
                           q = (if fin then rest else buf2 # rest);
                           e3 = (if fin then [LoggerWrite (accesslogger buf2), DeleteSendBuffer buf2]
                                 else []);
                           e4 = (if err \<noteq> EAGAIN \<and> q \<noteq> []
                                 then [ModifyPoll (EPOLLIN OR EPOLLOUT OR EPOLLET)] else [])
                       in (ret, s\<lparr>sendBuf := q\<rparr>, e1 @ e2 @ e3 @ e4)))))"

text \<open>
  The value of the local variable \<open>err\<close> when \<open>send()\<close> returns; \<open>None\<close> on the two early
  returns, which come before its declaration.
\<close>

definition send_err :: "bufsizes \<Rightarrow> send_os \<Rightarrow> TEpollSocket \<Rightarrow> int option" where
  "send_err g os s =
     (case sendBuf s of
        [] \<Rightarrow> None
      | buf # rest \<Rightarrow>
          if deleting s then None
          else Some (fst (send_loop (sd s) (sendBufSize g) os 0 0 buf [])))"

subsection \<open>The remaining member functions\<close>

definition enqueueSendData :: "TSendBuffer \<Rightarrow> TEpollSocket \<Rightarrow> TEpollSocket" where
  "enqueueSendData buffer s = s\<lparr>sendBuf := sendBuf s @ [buffer]\<rparr>"

definition setSocketDescpriter :: "int \<Rightarrow> TEpollSocket \<Rightarrow> TEpollSocket" where
  "setSocketDescpriter socketDescriptor s = s\<lparr>sd := socketDescriptor\<rparr>"

definition sendData_file ::
  "QByteArray \<Rightarrow> QFile option \<Rightarrow> bool \<Rightarrow> TAccessLogger \<Rightarrow> TEpollSocket \<Rightarrow> effect list" where
  "sendData_file header body autoRemove accessLogger s =
     (if \<not> deleting s then [SetSendDataFile header body autoRemove accessLogger] else [])"

definition sendData :: "QByteArray \<Rightarrow> TEpollSocket \<Rightarrow> effect list" where
  "sendData d s = (if \<not> deleting s then [SetSendData d] else [])"

definition disconnect :: "TEpollSocket \<Rightarrow> effect list" where
  "disconnect s = (if \<not> deleting s then [SetDisconnect] else [])"

definition switchToWebSocket :: "THttpRequestHeader \<Rightarrow> TEpollSocket \<Rightarrow> effect list" where
  "switchToWebSocket header s = (if \<not> deleting s then [SetSwitchToWebSocket header] else [])"

definition bufferedBytes :: "TEpollSocket \<Rightarrow> int" where
  "bufferedBytes s =
     fold (\<lambda>d ret. ret + int (length (arrayBuffer d))
                    + (case bodyFile d of None \<Rightarrow> 0 | Some f \<Rightarrow> int (length (contents f))))
          (sendBuf s) 0"

definition bufferedListCount :: "TEpollSocket \<Rightarrow> int" where
  "bufferedListCount s = int (length (sendBuf s))"

text \<open>
  \<open>deleteLater()\<close>: the debug line, the flag, and when no worker holds the handle the call
  \<open>QObject::deleteLater()\<close> of the base class. That call is Qt's: it posts the deferred-delete
  event for the object, recorded in \<open>deferredDelete\<close>, and returns; it closes nothing and
  deletes nothing.
\<close>

definition deleteLater :: "TEpollSocket \<Rightarrow> TEpollSocket \<times> effect list" where
  "deleteLater s =
     (let e0 = [SystemLog Debug ''TEpollSocket::deleteLater  countWorker:%d''
                  [I (myWorkerCounter s)]];
          s1 = s\<lparr>deleting := True\<rparr>
      in if myWorkerCounter s1 = 0
         then (s1\<lparr>deferredDelete := True\<rparr>, e0 @ [QObjectDeleteLater])
         else (s1, e0))"

text \<open>
  Qt's event loop, not part of the repository: when control is back in the event loop, a
  posted deferred-delete event deletes the object, which runs the destructor above; with no
  such event posted nothing happens to the object (\<open>None\<close>).
\<close>

definition deliverDeferredDelete :: "TEpollSocket \<Rightarrow> (TEpollSocket \<times> effect list) option" where
  "deliverDeferredDelete s = (if deferredDelete s then Some (destructor s) else None)"

declare recv_loop.simps [code]

subsection \<open>Runs of send and their traces\<close>

text \<open>
  Not part of the code: the reactor calling \<open>send()\<close> once per readiness event, each call
  with the operating system's answers of that moment, and the effects of all calls in order.
\<close>

fun send_run :: "bufsizes \<Rightarrow> send_os list \<Rightarrow> TEpollSocket \<Rightarrow> TEpollSocket \<times> effect list" where
  "send_run g [] s = (s, [])"
| "send_run g (os # oss) s =
     (case send g os s of
        (ret, s1, e1) \<Rightarrow> (case send_run g oss s1 of (s2, e2) \<Rightarrow> (s2, e1 @ e2)))"

text \<open>
  Not part of the code: a trace of effects drains a queue with the payloads \<open>ps\<close> in strict
  FIFO order when every chunk given to \<open>tf_send\<close> is a stretch of the payload that is first
  at that moment, and every deleted buffer is the one that is first at that moment, after
  which the next payload is first.
\<close>

fun fifo_trace :: "QByteArray list \<Rightarrow> effect list \<Rightarrow> bool" where
  "fifo_trace ps [] = True"
| "fifo_trace ps (TfSend fd d # es) =
     (ps \<noteq> [] \<and> (\<exists>c n. d = take n (drop c (hd ps))) \<and> fifo_trace ps es)"
| "fifo_trace ps (DeleteSendBuffer b # es) =
     (ps \<noteq> [] \<and> payload b = hd ps \<and> fifo_trace (tl ps) es)"
| "fifo_trace ps (e # es) = fifo_trace ps es"

definition deleted :: "effect list \<Rightarrow> nat" where
  "deleted es = length (filter (\<lambda>e. case e of DeleteSendBuffer b \<Rightarrow> True | _ \<Rightarrow> False) es)"

subsection \<open>The writes of one send call\<close>

text \<open>
  Not part of the code: the head buffer of a \<open>send()\<close> call after its first \<open>j\<close> writes,
  each of which succeeded (the cursor and the logger's byte count advanced by what each
  \<open>tf_send\<close> returned), and the chunk that the call offers to \<open>tf_send\<close> in its write
  number \<open>j\<close>.
\<close>

primrec head_after :: "int \<Rightarrow> int \<Rightarrow> send_os \<Rightarrow> TSendBuffer \<Rightarrow> nat \<Rightarrow> TSendBuffer" where
  "head_after fd sz os buf 0 = buf"
| "head_after fd sz os buf (Suc j) =
     (let b = head_after fd sz os buf j; len = fst (os j fd (getData b sz))
      in (seekData len b)
           \<lparr>accesslogger := setResponseBytes (responseBytes (accesslogger b) + len) (accesslogger b)\<rparr>)"

definition offered :: "int \<Rightarrow> int \<Rightarrow> send_os \<Rightarrow> TSendBuffer \<Rightarrow> nat \<Rightarrow> QByteArray" where
  "offered fd sz os buf j = getData (head_after fd sz os buf j) sz"

subsection \<open>The bytes a run of reads delivers\<close>

text \<open>
  Not part of the code: the bytes that the reads number \<open>i\<close> to \<open>k - 1\<close> put into the
  receive buffer, each read contributing the first \<open>len\<close> bytes it wrote.
\<close>

definition received :: "recv_os \<Rightarrow> int \<Rightarrow> int \<Rightarrow> nat \<Rightarrow> nat \<Rightarrow> QByteArray" where
  "received os fd sz i k =
     concat (map (\<lambda>j. case os j fd sz of (len, err, written) \<Rightarrow> take (nat len) written) [i..<k])"

subsection \<open>The spec's remaining unsent length\<close>

text \<open>
  Not part of the code: the remaining unsent length of an Outbound Buffer in the words of the
  spec's testable property, "in-memory size minus cursor, or file size minus cursor", to be
  compared with what \<open>bufferedBytes\<close> adds up.
\<close>

definition spec_remaining_unsent :: "TSendBuffer \<Rightarrow> int" where
  "spec_remaining_unsent b =
     (case bodyFile b of
        None \<Rightarrow> int (length (arrayBuffer b)) - int (cursor b)
      | Some f \<Rightarrow> int (length (contents f)) - int (cursor b))"

subsection \<open>Concrete scenarios\<close>

text \<open>
  A handle on descriptor 7 with a given \<open>deleting\<close> flag and send queue, one worker holding a
  reference; chunk sizes of 4096 bytes; a peer that takes four bytes and then refuses with a
  given \<open>errno\<close>; a peer that takes every chunk whole; a peer that refuses every write with
  a given \<open>errno\<close>.
\<close>

definition ex_sizes :: bufsizes where
  "ex_sizes = \<lparr>sendBufSize = 4096, recvBufSize = 4096\<rparr>"

definition ex_socket :: "bool \<Rightarrow> TSendBuffer list \<Rightarrow> TEpollSocket" where
  "ex_socket del q =
     \<lparr>deleting = del, myWorkerCounter = 1, sd = 7, uuid = ''6fa459ea'', clientAddr = ''10.0.0.1'',
      sendBuf = q, recvBuffer = ''GET '', deferredDelete = False\<rparr>"

definition os_four_then :: "int \<Rightarrow> send_os" where
  "os_four_then e i fd d = (if i = 0 then (4, 0) else (-1, e))"

definition os_accept_all :: send_os where
  "os_accept_all i fd d = (int (length d), 0)"

definition os_refuse :: "int \<Rightarrow> send_os" where
  "os_refuse e i fd d = (-1, e)"

text \<open>
  A peer that delivers two segments of a request and then answers a read with a given length
  and \<open>errno\<close>; a peer that never stops delivering; an \<open>accept\<close> that yields a given
  descriptor and \<open>errno\<close>, on a system where the first \<open>getsockopt\<close> succeeds and the
  second fails.
\<close>

definition os_two_reads_then :: "int \<Rightarrow> int \<Rightarrow> recv_os" where
  "os_two_reads_then len e i fd sz =
     (if i = 0 then (11, 0, ''/index.html'') else if i = 1 then (9, 0, '' HTTP/1.1'') else (len, e, []))"

definition os_endless :: recv_os where
  "os_endless i fd sz = (1, 0, ''x'')"

definition ex_accept_env :: "int \<Rightarrow> int \<Rightarrow> accept_env" where
  "ex_accept_env fd e =
     \<lparr>actfd = fd, accept_errno = e, peer = ''10.0.0.1'', sndbuf_res = (0, 16384),
      rcvbuf_res = (-1, 0), new_uuid = ''{6fa459ea}''\<rparr>"

section \<open>Properties of send\<close>

lemma send_loop_unfold:
  "send_loop fd sz os i err buf effs =
     (if getData buf sz = [] then (err, 0, buf, effs)
      else if fst (os i fd (getData buf sz)) \<le> 0
        then (snd (os i fd (getData buf sz)), fst (os i fd (getData buf sz)), buf,
              effs @ [TfSend fd (getData buf sz)])
      else send_loop fd sz os (Suc i) (snd (os i fd (getData buf sz)))
             ((seekData (fst (os i fd (getData buf sz))) buf)
                \<lparr>accesslogger :=
                   setResponseBytes
                     (responseBytes (accesslogger buf) + fst (os i fd (getData buf sz)))
                     (accesslogger buf)\<rparr>)
             (effs @ [TfSend fd (getData buf sz)]))"
  by (subst send_loop.simps) (simp add: Let_def split: prod.split)

lemma send_loop_result:
  "send_loop fd sz os i err buf effs = (err1, len1, buf1, effs1) \<Longrightarrow>
     payload buf1 = payload buf \<and> arrayBuffer buf1 = arrayBuffer buf \<and>
     bodyFile buf1 = bodyFile buf \<and> fileRemove buf1 = fileRemove buf \<and>
     cursor buf \<le> cursor buf1 \<and>
     (\<exists>ds. effs1 = effs @ map (TfSend fd) ds \<and>
           (\<forall>d\<in>set ds. \<exists>c. d = take (nat sz) (drop c (payload buf))))"
proof (induction fd sz os i err buf effs rule: send_loop.induct)
  case (1 fd sz os i err buf effs)
  let ?data = "getData buf sz"
  show ?case
  proof (cases "?data = []")
    case True
    with "1.prems" have "buf1 = buf" "effs1 = effs"
      by (simp_all add: send_loop_unfold)
    then show ?thesis by simp
  next
    case ne: False
    obtain len' err' where r: "os i fd ?data = (len', err')"
      by (cases "os i fd ?data")
    have chunk: "\<exists>c. ?data = take (nat sz) (drop c (payload buf))"
      unfolding getData_def by blast
    show ?thesis
    proof (cases "len' \<le> 0")
      case True
      with "1.prems" ne r have "buf1 = buf" "effs1 = effs @ map (TfSend fd) [?data]"
        by (auto simp add: send_loop_unfold)
      with chunk show ?thesis by (metis list.set(1) list.set(2) singletonD empty_iff order_refl)
    next
      case False
      let ?b = "(seekData len' buf)\<lparr>accesslogger :=
                  setResponseBytes (responseBytes (accesslogger buf) + len') (accesslogger buf)\<rparr>"
      from "1.prems" ne r False
      have rec: "send_loop fd sz os (Suc i) err' ?b (effs @ [TfSend fd ?data]) = (err1, len1, buf1, effs1)"
        by (simp add: send_loop_unfold)
      have same: "payload ?b = payload buf" "arrayBuffer ?b = arrayBuffer buf"
        "bodyFile ?b = bodyFile buf" "fileRemove ?b = fileRemove buf" "cursor buf \<le> cursor ?b"
        by (simp_all add: payload_def seekData_def)
      from ne have "int (length ?data) \<noteq> 0" by simp
      from "1.IH"[OF refl refl this r[symmetric] False rec]
      obtain ds where ih: "payload buf1 = payload ?b" "arrayBuffer buf1 = arrayBuffer ?b"
        "bodyFile buf1 = bodyFile ?b" "fileRemove buf1 = fileRemove ?b" "cursor ?b \<le> cursor buf1"
        "effs1 = (effs @ [TfSend fd ?data]) @ map (TfSend fd) ds"
        "\<forall>d\<in>set ds. \<exists>c. d = take (nat sz) (drop c (payload ?b))"
        by blast
      from ih(6) have e: "effs1 = effs @ map (TfSend fd) (?data # ds)" by simp
      from ih(7) chunk same(1) have "\<forall>d\<in>set (?data # ds). \<exists>c. d = take (nat sz) (drop c (payload buf))"
        by auto
      with e ih(1-5) same show ?thesis
        by (metis order_trans)
    qed
  qed
qed

lemma errno_distinct:
  "EAGAIN \<noteq> 0" "EPIPE \<noteq> 0" "EPIPE \<noteq> EAGAIN" "ECONNRESET \<noteq> 0" "ECONNRESET \<noteq> EAGAIN"
  by (simp_all add: EAGAIN_def EPIPE_def ECONNRESET_def)

lemma send_switch_result:
  "send_switch fd err len buf = (ret, buf2, e2) \<Longrightarrow>
     (ret < 0) = (err \<noteq> 0 \<and> err \<noteq> EAGAIN) \<and> (ret = 0 \<or> ret = -1) \<and>
     (ret = 0 \<longrightarrow> buf2 = buf) \<and>
     (ret < 0 \<longrightarrow> accesslogger buf2 = setResponseBytes (-1) (accesslogger buf)) \<and>
     payload buf2 = payload buf \<and> cursor buf2 = cursor buf \<and> atEnd buf2 = atEnd buf \<and>
     (\<forall>x\<in>set e2. \<exists>l m a. x = SystemLog l m a)"
  by (auto simp: send_switch_def payload_def atEnd_def split: if_splits)

lemma send_guard:
  "deleting s \<or> sendBuf s = [] \<Longrightarrow> send g os s = (0, s, []) \<and> send_err g os s = None"
  by (auto simp: send_def send_err_def split: list.splits)

lemma send_active:
  assumes "\<not> deleting s" and "sendBuf s = buf # rest"
    and "send_loop (sd s) (sendBufSize g) os 0 0 buf [] = (err, len, buf1, e1)"
    and "send_switch (sd s) err len buf1 = (ret, buf2, e2)"
  shows "send g os s =
    (ret, s\<lparr>sendBuf := (if atEnd buf2 \<or> ret < 0 then rest else buf2 # rest)\<rparr>,
     e1 @ e2 @
     (if atEnd buf2 \<or> ret < 0 then [LoggerWrite (accesslogger buf2), DeleteSendBuffer buf2] else []) @
     (if err \<noteq> EAGAIN \<and> (if atEnd buf2 \<or> ret < 0 then rest else buf2 # rest) \<noteq> []
      then [ModifyPoll (EPOLLIN OR EPOLLOUT OR EPOLLET)] else []))"
  using assms by (simp add: send_def Let_def)

text \<open>
  A run: the head holds ten bytes, the peer takes four and then answers \<open>EAGAIN\<close>.
\<close>

lemma ex_loop_eagain:
  "send_loop 7 4096 (os_four_then EAGAIN) 0 0 (createSendBuffer ''0123456789'') [] =
   (EAGAIN, -1,
    (createSendBuffer ''0123456789'')\<lparr>cursor := 4, accesslogger := \<lparr>responseBytes = 4\<rparr>\<rparr>,
    [TfSend 7 ''0123456789'', TfSend 7 ''456789''])"
  by (simp add: send_loop_unfold os_four_then_def createSendBuffer_def
      getData_def payload_def seekData_def setResponseBytes_def)

lemma ex_send_eagain:
  "send ex_sizes (os_four_then EAGAIN)
     (ex_socket False [createSendBuffer ''0123456789'', createSendBuffer ''abc'']) =
   (0,
    ex_socket False
      [(createSendBuffer ''0123456789'')\<lparr>cursor := 4, accesslogger := \<lparr>responseBytes = 4\<rparr>\<rparr>,
       createSendBuffer ''abc''],
    [TfSend 7 ''0123456789'', TfSend 7 ''456789''])"
  by (simp add: send_def send_loop_unfold send_switch_def atEnd_def ex_socket_def ex_sizes_def
      os_four_then_def createSendBuffer_def getData_def payload_def seekData_def
      setResponseBytes_def errno_distinct)

lemma TAccessLogger_set [simp]:
  "setResponseBytes n (lg :: TAccessLogger) = \<lparr>responseBytes = n\<rparr>"
  by (cases lg) (simp add: setResponseBytes_def)

text \<open>
  C1 (as amended: for a handle whose \<open>deleting\<close> flag is false). A \<open>send()\<close> call on a
  non-empty queue hands to \<open>tf_send\<close> only chunks of the payload of the head buffer. The head
  leaves the queue exactly when, after the loop, it is fully consumed or the captured \<open>errno\<close>
  is a terminal one (neither 0 nor \<open>EAGAIN\<close>); exactly then its access log is written and a
  buffer is deleted, and the deleted buffer is the head. The buffers behind the head stay in
  the queue as they were: the queue afterwards is the old tail, with the head in front of it
  when the head stays.
\<close>

theorem send_drains_head_only:
  assumes "\<not> deleting s" and "sendBuf s = buf # rest"
    and "send_loop (sd s) (sendBufSize g) os 0 0 buf [] = (err, len, buf1, e1)"
    and "send g os s = (ret, s', effs)"
  shows "(\<forall>fd d. TfSend fd d \<in> set effs \<longrightarrow>
            (\<exists>c. d = take (nat (sendBufSize g)) (drop c (payload buf))))
       \<and> ((sendBuf s' = rest) = (atEnd buf1 \<or> (err \<noteq> 0 \<and> err \<noteq> EAGAIN)))
       \<and> ((\<exists>lg. LoggerWrite lg \<in> set effs) = (atEnd buf1 \<or> (err \<noteq> 0 \<and> err \<noteq> EAGAIN)))
       \<and> ((\<exists>b. DeleteSendBuffer b \<in> set effs) = (atEnd buf1 \<or> (err \<noteq> 0 \<and> err \<noteq> EAGAIN)))
       \<and> (\<forall>b. DeleteSendBuffer b \<in> set effs \<longrightarrow>
             payload b = payload buf \<and> LoggerWrite (accesslogger b) \<in> set effs)
       \<and> (sendBuf s' = rest \<or> sendBuf s' = buf1 # rest)
       \<and> payload buf1 = payload buf"
proof -
  obtain r buf2 e2 where sw: "send_switch (sd s) err len buf1 = (r, buf2, e2)"
    by (cases "send_switch (sd s) err len buf1")
  note sw' = send_switch_result[OF sw]
  let ?fin = "atEnd buf2 \<or> r < 0"
  from send_loop_result[OF assms(3)] obtain ds where
    lp: "payload buf1 = payload buf" "e1 = map (TfSend (sd s)) ds"
      "\<forall>d\<in>set ds. \<exists>c. d = take (nat (sendBufSize g)) (drop c (payload buf))"
    by auto
  from send_active[OF assms(1,2,3) sw] assms(4)
  have ret: "ret = r"
    and s': "s' = s\<lparr>sendBuf := (if ?fin then rest else buf2 # rest)\<rparr>"
    and effs: "effs = e1 @ e2 @
        (if ?fin then [LoggerWrite (accesslogger buf2), DeleteSendBuffer buf2] else []) @
        (if err \<noteq> EAGAIN \<and> (if ?fin then rest else buf2 # rest) \<noteq> []
         then [ModifyPoll (EPOLLIN OR EPOLLOUT OR EPOLLET)] else [])"
    by simp_all
  have fin: "?fin = (atEnd buf1 \<or> (err \<noteq> 0 \<and> err \<noteq> EAGAIN))"
    using sw' by simp
  have e2: "\<And>x. x \<in> set e2 \<Longrightarrow> \<exists>l m a. x = SystemLog l m a"
    using sw' by blast
  have c1: "\<forall>fd d. TfSend fd d \<in> set effs \<longrightarrow>
            (\<exists>c. d = take (nat (sendBufSize g)) (drop c (payload buf)))"
  proof (intro allI impI)
    fix fd d assume "TfSend fd d \<in> set effs"
    then have "TfSend fd d \<in> set e1 \<or> TfSend fd d \<in> set e2"
      unfolding effs by (auto split: if_splits)
    then show "\<exists>c. d = take (nat (sendBufSize g)) (drop c (payload buf))"
    proof
      assume "TfSend fd d \<in> set e1"
      with lp(2,3) show ?thesis by auto
    next
      assume "TfSend fd d \<in> set e2"
      from e2[OF this] show ?thesis by auto
    qed
  qed
  have c2: "(sendBuf s' = rest) = (atEnd buf1 \<or> (err \<noteq> 0 \<and> err \<noteq> EAGAIN))"
    unfolding s' fin[symmetric] by simp
  have noLW: "\<And>lg. LoggerWrite lg \<notin> set e1 \<and> LoggerWrite lg \<notin> set e2"
    using e2 lp(2) by auto
  have noDel: "\<And>b. DeleteSendBuffer b \<notin> set e1 \<and> DeleteSendBuffer b \<notin> set e2"
    using e2 lp(2) by auto
  have c3: "(\<exists>lg. LoggerWrite lg \<in> set effs) = (atEnd buf1 \<or> (err \<noteq> 0 \<and> err \<noteq> EAGAIN))"
    unfolding fin[symmetric] effs using noLW by auto
  have c4: "(\<exists>b. DeleteSendBuffer b \<in> set effs) = (atEnd buf1 \<or> (err \<noteq> 0 \<and> err \<noteq> EAGAIN))"
    unfolding fin[symmetric] effs using noDel by auto
  have c5: "\<forall>b. DeleteSendBuffer b \<in> set effs \<longrightarrow>
             payload b = payload buf \<and> LoggerWrite (accesslogger b) \<in> set effs"
  proof (intro allI impI)
    fix b assume "DeleteSendBuffer b \<in> set effs"
    with noDel have "?fin \<and> b = buf2"
      unfolding effs by (auto split: if_splits)
    then show "payload b = payload buf \<and> LoggerWrite (accesslogger b) \<in> set effs"
      using sw' lp(1) unfolding effs by simp
  qed
  have c6: "sendBuf s' = rest \<or> sendBuf s' = buf1 # rest"
    unfolding s' using sw' by auto
  from c1 c2 c3 c4 c5 c6 lp(1) show ?thesis by blast
qed

text \<open>
  C1, the theorem at a concrete call: the ten-byte head, a second buffer behind it, a peer that
  takes four bytes and then answers \<open>EAGAIN\<close>. Both chunks offered to \<open>tf_send\<close> are
  bytes of the head, the head stays in front with its cursor at 4, the second buffer is
  untouched.
\<close>

theorem send_drains_head_only_witness:
  "\<not> deleting (ex_socket False [createSendBuffer ''0123456789'', createSendBuffer ''abc''])
   \<and> send ex_sizes (os_four_then EAGAIN)
        (ex_socket False [createSendBuffer ''0123456789'', createSendBuffer ''abc'']) =
      (0,
       ex_socket False
         [(createSendBuffer ''0123456789'')\<lparr>cursor := 4, accesslogger := \<lparr>responseBytes = 4\<rparr>\<rparr>,
          createSendBuffer ''abc''],
       [TfSend 7 ''0123456789'', TfSend 7 ''456789''])
   \<and> (\<exists>c. ''0123456789'' = take 4096 (drop c ''0123456789''))
   \<and> (\<exists>c. ''456789'' = take 4096 (drop c ''0123456789''))
   \<and> \<not> atEnd ((createSendBuffer ''0123456789'')\<lparr>cursor := 4,
                  accesslogger := \<lparr>responseBytes = 4\<rparr>\<rparr>)"
proof -
  let ?B = "createSendBuffer ''0123456789''" and ?A = "createSendBuffer ''abc''"
  let ?S = "ex_socket False [?B, ?A]"
  have h1: "\<not> deleting ?S" by (simp add: ex_socket_def)
  have h2: "sendBuf ?S = ?B # [?A]" by (simp add: ex_socket_def)
  have h3: "send_loop (sd ?S) (sendBufSize ex_sizes) (os_four_then EAGAIN) 0 0 ?B [] =
    (EAGAIN, -1, ?B\<lparr>cursor := 4, accesslogger := \<lparr>responseBytes = 4\<rparr>\<rparr>,
     [TfSend 7 ''0123456789'', TfSend 7 ''456789''])"
    using ex_loop_eagain by (simp add: ex_socket_def ex_sizes_def)
  note h4 = ex_send_eagain
  have p: "payload ?B = ''0123456789''" by (simp add: payload_def createSendBuffer_def)
  note t = send_drains_head_only[OF h1 h2 h3 h4]
  from t have chunks: "\<forall>fd d. TfSend fd d \<in> set [TfSend 7 ''0123456789'', TfSend 7 ''456789''] \<longrightarrow>
      (\<exists>c. d = take (nat (sendBufSize ex_sizes)) (drop c (payload ?B)))"
    by blast
  from chunks[rule_format, of 7 "''0123456789''"]
  have c1: "\<exists>c. ''0123456789'' = take 4096 (drop c ''0123456789'')"
    by (simp add: ex_sizes_def p)
  from chunks[rule_format, of 7 "''456789''"]
  have c2: "\<exists>c. ''456789'' = take 4096 (drop c ''0123456789'')"
    by (simp add: ex_sizes_def p)
  from t have "(sendBuf (ex_socket False
         [?B\<lparr>cursor := 4, accesslogger := \<lparr>responseBytes = 4\<rparr>\<rparr>, ?A]) = [?A]) =
      (atEnd (?B\<lparr>cursor := 4, accesslogger := \<lparr>responseBytes = 4\<rparr>\<rparr>) \<or>
       (EAGAIN \<noteq> 0 \<and> EAGAIN \<noteq> EAGAIN))"
    by blast
  then have c3: "\<not> atEnd (?B\<lparr>cursor := 4, accesslogger := \<lparr>responseBytes = 4\<rparr>\<rparr>)"
    by (simp add: ex_socket_def)
  from h1 h4 c1 c2 c3 show ?thesis by blast
qed

text \<open>
  C1 as stated, "for every state of the send queue", fails on a handle marked for deletion:
  the head (an empty byte array) is fully consumed, and \<open>send()\<close> returns through its guard
  without writing the access log and without removing it.
\<close>

theorem send_deleting_keeps_consumed_head:
  "deleting (ex_socket True [createSendBuffer []])
   \<and> atEnd (hd (sendBuf (ex_socket True [createSendBuffer []])))
   \<and> send ex_sizes os_accept_all (ex_socket True [createSendBuffer []]) =
       (0, ex_socket True [createSendBuffer []], [])"
  by (simp add: send_def ex_socket_def atEnd_def payload_def createSendBuffer_def)

text \<open>
  Strict FIFO draining over any number of \<open>send()\<close> calls, whatever the operating system
  answers and whatever the \<open>deleting\<close> flag: the trace of a run drains the queue in FIFO
  order, and the queue left is the old queue without the buffers deleted from its front.
\<close>

lemma fifo_trace_append:
  "fifo_trace ps (e1 @ e2) = (fifo_trace ps e1 \<and> fifo_trace (drop (deleted e1) ps) e2)"
proof (induction ps e1 rule: fifo_trace.induct)
  case (3 ps b es)
  then show ?case by (cases ps) (auto simp: deleted_def)
qed (auto simp: deleted_def)

lemma fifo_trace_sends:
  "\<forall>d\<in>set ds. \<exists>c. d = take n (drop c p) \<Longrightarrow> fifo_trace (p # ps) (map (TfSend fd) ds)"
  by (induction ds) auto

lemma deleted_sends [simp]: "deleted (map (TfSend fd) ds) = 0"
  by (induction ds) (auto simp: deleted_def)

lemma fifo_trace_logs:
  "\<forall>x\<in>set e. \<exists>l m a. x = SystemLog l m a \<Longrightarrow> fifo_trace ps e \<and> deleted e = 0"
  by (induction e) (auto simp: deleted_def)

lemma send_fifo:
  assumes "send g os s = (ret, s', effs)"
  shows "fifo_trace (map payload (sendBuf s)) effs
       \<and> map payload (sendBuf s') = drop (deleted effs) (map payload (sendBuf s))
       \<and> deleting s' = deleting s"
proof (cases "deleting s \<or> sendBuf s = []")
  case True
  from send_guard[OF True] assms have "s' = s" "effs = []" by simp_all
  then show ?thesis by (simp add: deleted_def)
next
  case False
  then obtain buf rest where nd: "\<not> deleting s" and q: "sendBuf s = buf # rest"
    by (cases "sendBuf s") auto
  obtain err len buf1 e1 where
    lp: "send_loop (sd s) (sendBufSize g) os 0 0 buf [] = (err, len, buf1, e1)"
    by (cases "send_loop (sd s) (sendBufSize g) os 0 0 buf []")
  obtain r buf2 e2 where sw: "send_switch (sd s) err len buf1 = (r, buf2, e2)"
    by (cases "send_switch (sd s) err len buf1")
  let ?fin = "atEnd buf2 \<or> r < 0"
  let ?q = "if ?fin then rest else buf2 # rest"
  let ?e3 = "if ?fin then [LoggerWrite (accesslogger buf2), DeleteSendBuffer buf2] else []"
  let ?e4 = "if err \<noteq> EAGAIN \<and> ?q \<noteq> [] then [ModifyPoll (EPOLLIN OR EPOLLOUT OR EPOLLET)] else []"
  from send_active[OF nd q lp sw] assms
  have s': "s' = s\<lparr>sendBuf := ?q\<rparr>" and effs: "effs = e1 @ e2 @ ?e3 @ ?e4"
    by simp_all
  from send_loop_result[OF lp] obtain ds where
    p1: "payload buf1 = payload buf" and e1: "e1 = map (TfSend (sd s)) ds"
    and ch: "\<forall>d\<in>set ds. \<exists>c. d = take (nat (sendBufSize g)) (drop c (payload buf))"
    by auto
  from send_switch_result[OF sw] have p2: "payload buf2 = payload buf1"
    and lg: "\<forall>x\<in>set e2. \<exists>l m a. x = SystemLog l m a" by simp_all
  let ?ps = "map payload (sendBuf s)"
  have ps: "?ps = payload buf # map payload rest" using q by simp
  have f1: "fifo_trace ?ps e1" "deleted e1 = 0"
    unfolding ps e1 using fifo_trace_sends[OF ch] by simp_all
  have f2: "fifo_trace ?ps e2" "deleted e2 = 0"
    using fifo_trace_logs[OF lg] by simp_all
  have f3: "fifo_trace ?ps ?e3" "deleted ?e3 = (if ?fin then 1 else 0)"
    unfolding ps using p1 p2 by (simp_all add: deleted_def)
  have f4: "\<And>qs. fifo_trace qs ?e4" "deleted ?e4 = 0"
    by (simp_all add: deleted_def)
  have d: "deleted effs = (if ?fin then 1 else 0)"
    unfolding effs using f1(2) f2(2) f3(2) f4(2) by (simp add: deleted_def)
  have "fifo_trace ?ps effs"
    unfolding effs using f1 f2 f3 f4 by (simp add: fifo_trace_append)
  moreover have "map payload (sendBuf s') = drop (deleted effs) ?ps"
    unfolding d s' ps using p1 p2 by simp
  moreover have "deleting s' = deleting s" unfolding s' by simp
  ultimately show ?thesis by blast
qed

lemma deleted_append [simp]: "deleted (a @ b) = deleted a + deleted b"
  by (simp add: deleted_def)

lemma send_run_fifo:
  "fifo_trace (map payload (sendBuf s)) (snd (send_run g oss s))
   \<and> map payload (sendBuf (fst (send_run g oss s))) =
       drop (deleted (snd (send_run g oss s))) (map payload (sendBuf s))"
proof (induction oss arbitrary: s)
  case Nil
  show ?case by (simp add: deleted_def)
next
  case (Cons os oss)
  obtain ret s1 e1 where a: "send g os s = (ret, s1, e1)" by (cases "send g os s")
  obtain s2 e2 where b: "send_run g oss s1 = (s2, e2)" by (cases "send_run g oss s1")
  from send_fifo[OF a] have 1: "fifo_trace (map payload (sendBuf s)) e1"
    and 2: "map payload (sendBuf s1) = drop (deleted e1) (map payload (sendBuf s))" by simp_all
  from Cons.IH[of s1] b have 3: "fifo_trace (map payload (sendBuf s1)) e2"
    and 4: "map payload (sendBuf s2) = drop (deleted e2) (map payload (sendBuf s1))" by simp_all
  from 1 2 3 4 a b show ?case
    by (simp add: fifo_trace_append add.commute)
qed

lemma send_loop_after:
  assumes "\<forall>j<k. offered fd sz os buf j \<noteq> [] \<and> 0 < fst (os j fd (offered fd sz os buf j))"
  shows "send_loop fd sz os 0 err buf effs =
     send_loop fd sz os k
       (if k = 0 then err else snd (os (k - 1) fd (offered fd sz os buf (k - 1))))
       (head_after fd sz os buf k)
       (effs @ map (\<lambda>j. TfSend fd (offered fd sz os buf j)) [0..<k])"
  using assms
proof (induction k)
  case 0
  show ?case by simp
next
  case (Suc k)
  then have ih: "send_loop fd sz os 0 err buf effs =
     send_loop fd sz os k
       (if k = 0 then err else snd (os (k - 1) fd (offered fd sz os buf (k - 1))))
       (head_after fd sz os buf k)
       (effs @ map (\<lambda>j. TfSend fd (offered fd sz os buf j)) [0..<k])"
    by simp
  from Suc.prems have ok: "getData (head_after fd sz os buf k) sz \<noteq> []"
    "\<not> fst (os k fd (getData (head_after fd sz os buf k) sz)) \<le> 0"
    by (auto simp: offered_def)
  show ?case
    unfolding ih
    by (subst send_loop_unfold) (simp add: ok offered_def Let_def)
qed

lemma send_loop_write_fails:
  assumes "\<forall>j<k. offered fd sz os buf j \<noteq> [] \<and> 0 < fst (os j fd (offered fd sz os buf j))"
    and "offered fd sz os buf k \<noteq> []"
    and "os k fd (offered fd sz os buf k) = (len, e)" and "len \<le> 0"
  shows "send_loop fd sz os 0 err buf effs =
     (e, len, head_after fd sz os buf k,
      effs @ map (\<lambda>j. TfSend fd (offered fd sz os buf j)) [0..<Suc k])"
  unfolding send_loop_after[OF assms(1)]
  using assms(2,3,4)
  by (subst send_loop_unfold) (simp add: offered_def)

lemma send_captured_EPIPE:
  assumes "\<not> deleting s" and "sendBuf s = buf # rest"
    and "send_loop (sd s) (sendBufSize g) os 0 0 buf [] = (EPIPE, len, buf1, e1)"
  shows "send g os s =
       (-1, s\<lparr>sendBuf := rest\<rparr>,
        e1 @ [SystemLog Debug ''Socket disconnected : sd:%d  errno:%d'' [I (sd s), I EPIPE],
              LoggerWrite \<lparr>responseBytes = -1\<rparr>,
              DeleteSendBuffer (buf1\<lparr>accesslogger := \<lparr>responseBytes = -1\<rparr>\<rparr>)]
           @ (if rest \<noteq> [] then [ModifyPoll (EPOLLIN OR EPOLLOUT OR EPOLLET)] else []))"
proof -
  have sw: "send_switch (sd s) EPIPE len buf1 =
      (-1, buf1\<lparr>accesslogger := \<lparr>responseBytes = -1\<rparr>\<rparr>,
       [SystemLog Debug ''Socket disconnected : sd:%d  errno:%d'' [I (sd s), I EPIPE]])"
    by (simp add: send_switch_def errno_distinct)
  from send_active[OF assms(1,2,3) sw] show ?thesis
    by (simp add: errno_distinct)
qed

text \<open>
  C4. A \<open>send()\<close> call on a handle that is not marked for deletion, whose first \<open>k\<close> writes
  succeed (together they transmit K bytes of the head, where K is the sum of what \<open>tf_send\<close>
  returned) and whose next write, with bytes of the head still to send, is answered by
  \<open>tf_send\<close> with a non-positive length and \<open>EPIPE\<close>: the call returns -1; after the
  \<open>k + 1\<close> writes it logs the debug line, sets the logger's \<open>responseBytes\<close> to -1 and
  writes the access log with it, deletes the head buffer (its cursor at K) and leaves the
  old tail as the queue, so that the head is never offered to \<open>tf_send\<close> again. The case
  \<open>k = 0\<close> is the failure of the first write.
\<close>

theorem send_broken_pipe:
  assumes "\<not> deleting s" and "sendBuf s = buf # rest"
    and "\<forall>j<k. offered (sd s) (sendBufSize g) os buf j \<noteq> [] \<and>
               0 < fst (os j (sd s) (offered (sd s) (sendBufSize g) os buf j))"
    and "offered (sd s) (sendBufSize g) os buf k \<noteq> []"
    and "os k (sd s) (offered (sd s) (sendBufSize g) os buf k) = (len, EPIPE)" and "len \<le> 0"
  shows "send g os s =
       (-1, s\<lparr>sendBuf := rest\<rparr>,
        map (\<lambda>j. TfSend (sd s) (offered (sd s) (sendBufSize g) os buf j)) [0..<Suc k] @
        [SystemLog Debug ''Socket disconnected : sd:%d  errno:%d'' [I (sd s), I EPIPE],
         LoggerWrite \<lparr>responseBytes = -1\<rparr>,
         DeleteSendBuffer
           ((head_after (sd s) (sendBufSize g) os buf k)\<lparr>accesslogger := \<lparr>responseBytes = -1\<rparr>\<rparr>)]
        @ (if rest \<noteq> [] then [ModifyPoll (EPOLLIN OR EPOLLOUT OR EPOLLET)] else []))
     \<and> payload (head_after (sd s) (sendBufSize g) os buf k) = payload buf
     \<and> int (cursor (head_after (sd s) (sendBufSize g) os buf k)) =
         int (cursor buf) + (\<Sum>j<k. fst (os j (sd s) (offered (sd s) (sendBufSize g) os buf j)))"
proof -
  let ?fd = "sd s" and ?sz = "sendBufSize g"
  have lp: "send_loop ?fd ?sz os 0 0 buf [] =
     (EPIPE, len, head_after ?fd ?sz os buf k,
      [] @ map (\<lambda>j. TfSend ?fd (offered ?fd ?sz os buf j)) [0..<Suc k])"
    using send_loop_write_fails[of k ?fd ?sz os buf len EPIPE 0 "[]"] assms(3,4,5,6)
    by blast
  from send_captured_EPIPE[OF assms(1,2) lp] have 1: "send g os s =
       (-1, s\<lparr>sendBuf := rest\<rparr>,
        map (\<lambda>j. TfSend (sd s) (offered (sd s) (sendBufSize g) os buf j)) [0..<Suc k] @
        [SystemLog Debug ''Socket disconnected : sd:%d  errno:%d'' [I (sd s), I EPIPE],
         LoggerWrite \<lparr>responseBytes = -1\<rparr>,
         DeleteSendBuffer
           ((head_after (sd s) (sendBufSize g) os buf k)\<lparr>accesslogger := \<lparr>responseBytes = -1\<rparr>\<rparr>)]
        @ (if rest \<noteq> [] then [ModifyPoll (EPOLLIN OR EPOLLOUT OR EPOLLET)] else []))"
    by simp
  from send_loop_result[OF lp] have 2: "payload (head_after ?fd ?sz os buf k) = payload buf"
    by simp
  have 3: "int (cursor (head_after ?fd ?sz os buf k)) =
         int (cursor buf) + (\<Sum>j<k. fst (os j ?fd (offered ?fd ?sz os buf j)))"
    using assms(3)
  proof (induction k)
    case 0
    show ?case by simp
  next
    case (Suc k)
    let ?L = "fst (os k ?fd (getData (head_after ?fd ?sz os buf k) ?sz))"
    from Suc.prems have pos: "0 < ?L"
      by (simp add: offered_def)
    from Suc.prems have "\<forall>j<k. offered ?fd ?sz os buf j \<noteq> [] \<and>
        0 < fst (os j ?fd (offered ?fd ?sz os buf j))" by simp
    from Suc.IH[OF this] have ih: "int (cursor (head_after ?fd ?sz os buf k)) =
        int (cursor buf) + (\<Sum>j<k. fst (os j ?fd (offered ?fd ?sz os buf j)))" .
    have "cursor (head_after ?fd ?sz os buf (Suc k)) =
        cursor (head_after ?fd ?sz os buf k) + nat ?L"
      by (simp add: Let_def seekData_def)
    with pos ih show ?case
      by (simp add: offered_def)
  qed
  from 1 2 3 show ?thesis by blast
qed

text \<open>
  C4 at two concrete calls: the peer takes K = 4 of the N = 10 bytes of the head and then
  fails with \<open>EPIPE\<close>; the peer fails the first write with \<open>EPIPE\<close> (K = 0).
\<close>

theorem send_broken_pipe_witness:
  "send ex_sizes (os_four_then EPIPE)
       (ex_socket False [createSendBuffer ''0123456789'', createSendBuffer ''abc'']) =
     (-1, ex_socket False [createSendBuffer ''abc''],
      [TfSend 7 ''0123456789'', TfSend 7 ''456789'',
       SystemLog Debug ''Socket disconnected : sd:%d  errno:%d'' [I 7, I EPIPE],
       LoggerWrite \<lparr>responseBytes = -1\<rparr>,
       DeleteSendBuffer
         ((createSendBuffer ''0123456789'')\<lparr>cursor := 4, accesslogger := \<lparr>responseBytes = -1\<rparr>\<rparr>),
       ModifyPoll (EPOLLIN OR EPOLLOUT OR EPOLLET)])
   \<and> send ex_sizes (os_refuse EPIPE) (ex_socket False [createSendBuffer ''0123456789'']) =
     (-1, ex_socket False [],
      [TfSend 7 ''0123456789'',
       SystemLog Debug ''Socket disconnected : sd:%d  errno:%d'' [I 7, I EPIPE],
       LoggerWrite \<lparr>responseBytes = -1\<rparr>,
       DeleteSendBuffer ((createSendBuffer ''0123456789'')\<lparr>accesslogger := \<lparr>responseBytes = -1\<rparr>\<rparr>)])"
proof -
  let ?B = "createSendBuffer ''0123456789''" and ?A = "createSendBuffer ''abc''"
  let ?S = "ex_socket False [?B, ?A]" and ?T = "ex_socket False [?B]"
  have sd: "sd ?S = 7" "sd ?T = 7" "sendBufSize ex_sizes = 4096"
    "\<not> deleting ?S" "\<not> deleting ?T" "sendBuf ?S = ?B # [?A]" "sendBuf ?T = ?B # []"
    by (simp_all add: ex_socket_def ex_sizes_def)
  have o0: "offered 7 4096 (os_four_then EPIPE) ?B 0 = ''0123456789''"
    by (simp add: offered_def getData_def payload_def createSendBuffer_def)
  have h1: "head_after 7 4096 (os_four_then EPIPE) ?B (Suc 0) =
      ?B\<lparr>cursor := 4, accesslogger := \<lparr>responseBytes = 4\<rparr>\<rparr>"
    by (simp add: getData_def payload_def createSendBuffer_def os_four_then_def seekData_def)
  have o1: "offered 7 4096 (os_four_then EPIPE) ?B (Suc 0) = ''456789''"
    unfolding offered_def h1 by (simp add: getData_def payload_def createSendBuffer_def)
  have a3: "\<forall>j<Suc 0. offered (sd ?S) (sendBufSize ex_sizes) (os_four_then EPIPE) ?B j \<noteq> [] \<and>
      0 < fst (os_four_then EPIPE j (sd ?S)
                 (offered (sd ?S) (sendBufSize ex_sizes) (os_four_then EPIPE) ?B j))"
    by (simp add: sd o0 os_four_then_def)
  have a4: "offered (sd ?S) (sendBufSize ex_sizes) (os_four_then EPIPE) ?B (Suc 0) \<noteq> []"
    by (simp add: sd o1)
  have a5: "os_four_then EPIPE (Suc 0) (sd ?S)
      (offered (sd ?S) (sendBufSize ex_sizes) (os_four_then EPIPE) ?B (Suc 0)) = (-1, EPIPE)"
    by (simp add: os_four_then_def)
  have neg: "(-1::int) \<le> 0" by simp
  note t1 = send_broken_pipe[OF sd(4) sd(6) a3 a4 a5 neg, THEN conjunct1]
  have e1: "?S\<lparr>sendBuf := [?A]\<rparr> = ex_socket False [?A]"
    by (simp add: ex_socket_def)
  have e2: "map (\<lambda>j. TfSend (sd ?S) (offered (sd ?S) (sendBufSize ex_sizes) (os_four_then EPIPE) ?B j))
      [0..<Suc (Suc 0)] = [TfSend 7 ''0123456789'', TfSend 7 ''456789'']"
    unfolding sd by (simp add: upt_conv_Cons o0 o1)
  have e3: "head_after (sd ?S) (sendBufSize ex_sizes) (os_four_then EPIPE) ?B (Suc 0) =
      ?B\<lparr>cursor := 4, accesslogger := \<lparr>responseBytes = 4\<rparr>\<rparr>"
    unfolding sd by (rule h1)
  from t1 have r1: "send ex_sizes (os_four_then EPIPE) ?S =
     (-1, ex_socket False [?A],
      [TfSend 7 ''0123456789'', TfSend 7 ''456789'',
       SystemLog Debug ''Socket disconnected : sd:%d  errno:%d'' [I 7, I EPIPE],
       LoggerWrite \<lparr>responseBytes = -1\<rparr>,
       DeleteSendBuffer (?B\<lparr>cursor := 4, accesslogger := \<lparr>responseBytes = -1\<rparr>\<rparr>),
       ModifyPoll (EPOLLIN OR EPOLLOUT OR EPOLLET)])"
    unfolding e1 e2 e3 by (simp add: sd(1))
  have p0: "offered 7 4096 (os_refuse EPIPE) ?B 0 = ''0123456789''"
    by (simp add: offered_def getData_def payload_def createSendBuffer_def)
  have b3: "\<forall>j<0. offered (sd ?T) (sendBufSize ex_sizes) (os_refuse EPIPE) ?B j \<noteq> [] \<and>
      0 < fst (os_refuse EPIPE j (sd ?T)
                 (offered (sd ?T) (sendBufSize ex_sizes) (os_refuse EPIPE) ?B j))"
    by simp
  have b4: "offered (sd ?T) (sendBufSize ex_sizes) (os_refuse EPIPE) ?B 0 \<noteq> []"
    by (simp add: sd p0)
  have b5: "os_refuse EPIPE 0 (sd ?T)
      (offered (sd ?T) (sendBufSize ex_sizes) (os_refuse EPIPE) ?B 0) = (-1, EPIPE)"
    by (simp add: os_refuse_def)
  note t2 = send_broken_pipe[OF sd(5) sd(7) b3 b4 b5 neg, THEN conjunct1]
  have f1: "?T\<lparr>sendBuf := []\<rparr> = ex_socket False []"
    by (simp add: ex_socket_def)
  have f2: "map (\<lambda>j. TfSend (sd ?T) (offered (sd ?T) (sendBufSize ex_sizes) (os_refuse EPIPE) ?B j))
      [0..<Suc 0] = [TfSend 7 ''0123456789'']"
    unfolding sd by (simp add: p0)
  from t2 have r2: "send ex_sizes (os_refuse EPIPE) ?T =
     (-1, ex_socket False [],
      [TfSend 7 ''0123456789'',
       SystemLog Debug ''Socket disconnected : sd:%d  errno:%d'' [I 7, I EPIPE],
       LoggerWrite \<lparr>responseBytes = -1\<rparr>,
       DeleteSendBuffer (?B\<lparr>accesslogger := \<lparr>responseBytes = -1\<rparr>\<rparr>)])"
    unfolding f1 f2 by (simp add: sd(2))
  from r1 r2 show ?thesis by blast
qed

text \<open>
  C5 (as amended: a call that returns through a guard never re-registers). The last action of
  a \<open>send()\<close> call is \<open>modifyPoll(this, EPOLLIN | EPOLLOUT | EPOLLET)\<close> exactly when the
  handle is not marked for deletion, the \<open>errno\<close> captured by the loop is not \<open>EAGAIN\<close>
  and the queue is non-empty after the finalization; no other \<open>modifyPoll\<close> is issued.
\<close>

theorem send_rearm:
  assumes "send g os s = (ret, s', effs)"
  shows "((ModifyPoll (EPOLLIN OR EPOLLOUT OR EPOLLET) \<in> set effs) =
            (\<not> deleting s \<and> send_err g os s \<noteq> Some EAGAIN \<and> sendBuf s' \<noteq> []))
       \<and> (\<forall>ev. ModifyPoll ev \<in> set effs \<longrightarrow>
             ev = EPOLLIN OR EPOLLOUT OR EPOLLET \<and> effs \<noteq> [] \<and> last effs = ModifyPoll ev)"
proof (cases "deleting s \<or> sendBuf s = []")
  case True
  from send_guard[OF True] assms have "s' = s" "effs = []" by simp_all
  with True show ?thesis by auto
next
  case False
  then obtain buf rest where nd: "\<not> deleting s" and q: "sendBuf s = buf # rest"
    by (cases "sendBuf s") auto
  obtain err len buf1 e1 where
    lp: "send_loop (sd s) (sendBufSize g) os 0 0 buf [] = (err, len, buf1, e1)"
    by (cases "send_loop (sd s) (sendBufSize g) os 0 0 buf []")
  obtain r buf2 e2 where sw: "send_switch (sd s) err len buf1 = (r, buf2, e2)"
    by (cases "send_switch (sd s) err len buf1")
  let ?fin = "atEnd buf2 \<or> r < 0"
  let ?q = "if ?fin then rest else buf2 # rest"
  let ?pre = "e1 @ e2 @
        (if ?fin then [LoggerWrite (accesslogger buf2), DeleteSendBuffer buf2] else [])"
  from send_active[OF nd q lp sw] assms
  have s': "sendBuf s' = ?q"
    and effs: "effs = ?pre @
        (if err \<noteq> EAGAIN \<and> ?q \<noteq> [] then [ModifyPoll (EPOLLIN OR EPOLLOUT OR EPOLLET)] else [])"
    by auto
  have se: "send_err g os s = Some err"
    using nd q lp by (simp add: send_err_def)
  from send_loop_result[OF lp] obtain ds where e1: "e1 = map (TfSend (sd s)) ds" by auto
  have e2: "\<And>x. x \<in> set e2 \<Longrightarrow> \<exists>l m a. x = SystemLog l m a"
    using send_switch_result[OF sw] by blast
  have pre: "\<And>ev. ModifyPoll ev \<notin> set ?pre"
    using e1 e2 by auto
  show ?thesis
  proof (cases "err \<noteq> EAGAIN \<and> ?q \<noteq> []")
    case True
    then have "effs = ?pre @ [ModifyPoll (EPOLLIN OR EPOLLOUT OR EPOLLET)]"
      using effs by simp
    with pre True se s' nd show ?thesis by auto
  next
    case no: False
    then have "effs = ?pre" using effs by auto
    with pre no se s' show ?thesis by auto
  qed
qed

text \<open>
  C5 at a concrete call: the peer takes the whole head, the loop ends with \<open>errno\<close> 0, the
  head is finalized, a second buffer is still queued, and the handle is re-registered.
\<close>

theorem send_rearm_witness:
  "send ex_sizes os_accept_all
       (ex_socket False [createSendBuffer ''0123456789'', createSendBuffer ''abc'']) =
     (0, ex_socket False [createSendBuffer ''abc''],
      [TfSend 7 ''0123456789'',
       LoggerWrite \<lparr>responseBytes = 10\<rparr>,
       DeleteSendBuffer
         ((createSendBuffer ''0123456789'')\<lparr>cursor := 10, accesslogger := \<lparr>responseBytes = 10\<rparr>\<rparr>),
       ModifyPoll (EPOLLIN OR EPOLLOUT OR EPOLLET)])
   \<and> send_err ex_sizes os_accept_all
       (ex_socket False [createSendBuffer ''0123456789'', createSendBuffer ''abc'']) = Some 0"
proof -
  let ?S = "ex_socket False [createSendBuffer ''0123456789'', createSendBuffer ''abc'']"
  have lp: "send_loop 7 4096 os_accept_all 0 0 (createSendBuffer ''0123456789'') [] =
   (0, 0,
    (createSendBuffer ''0123456789'')\<lparr>cursor := 10, accesslogger := \<lparr>responseBytes = 10\<rparr>\<rparr>,
    [TfSend 7 ''0123456789''])"
    by (simp add: send_loop_unfold os_accept_all_def createSendBuffer_def
      getData_def payload_def seekData_def)
  have h: "send ex_sizes os_accept_all ?S =
     (0, ex_socket False [createSendBuffer ''abc''],
      [TfSend 7 ''0123456789'',
       LoggerWrite \<lparr>responseBytes = 10\<rparr>,
       DeleteSendBuffer
         ((createSendBuffer ''0123456789'')\<lparr>cursor := 10, accesslogger := \<lparr>responseBytes = 10\<rparr>\<rparr>),
       ModifyPoll (EPOLLIN OR EPOLLOUT OR EPOLLET)])"
    by (simp add: send_def send_loop_unfold send_switch_def atEnd_def ex_socket_def ex_sizes_def
      os_accept_all_def createSendBuffer_def getData_def payload_def seekData_def errno_distinct)
  have e: "send_err ex_sizes os_accept_all ?S = Some 0"
    by (simp add: send_err_def ex_socket_def ex_sizes_def lp)
  from send_rearm[OF h] h e show ?thesis
    by simp
qed

text \<open>
  C5 as stated, "at the end of every \<open>send()\<close> call", fails on a handle marked for deletion
  with a buffer queued: no \<open>EAGAIN\<close> was captured (no \<open>errno\<close> at all) and the queue is
  non-empty after the call, and yet the handle is not re-registered.
\<close>

theorem send_deleting_no_rearm:
  "\<not> ((ModifyPoll (EPOLLIN OR EPOLLOUT OR EPOLLET)
         \<in> set (snd (snd (send ex_sizes os_accept_all (ex_socket True [createSendBuffer ''abc''])))))
       = (send_err ex_sizes os_accept_all (ex_socket True [createSendBuffer ''abc'']) \<noteq> Some EAGAIN
          \<and> sendBuf (fst (snd (send ex_sizes os_accept_all
                 (ex_socket True [createSendBuffer ''abc''])))) \<noteq> []))"
  by (simp add: send_def send_err_def ex_socket_def)

section \<open>Properties of bufferedBytes and of the external requests\<close>

lemma fold_add_sizes:
  "fold (\<lambda>d ret. ret + f d) xs (a::int) = a + sum_list (map f xs)"
  by (induction xs arbitrary: a) simp_all

lemma bufferedBytes_sum:
  "bufferedBytes s =
     (\<Sum>d\<leftarrow>sendBuf s. int (length (arrayBuffer d)) +
        (case bodyFile d of None \<Rightarrow> 0 | Some f \<Rightarrow> int (length (contents f))))"
  unfolding bufferedBytes_def
  using fold_add_sizes[of "\<lambda>d. int (length (arrayBuffer d)) +
        (case bodyFile d of None \<Rightarrow> 0 | Some f \<Rightarrow> int (length (contents f)))" "sendBuf s" 0]
  by (simp add: add.assoc)

lemma send_queue_after:
  assumes "\<not> deleting s" and "sendBuf s = buf # rest"
    and "send_loop (sd s) (sendBufSize g) os 0 0 buf [] = (err, len, buf1, e1)"
    and "send g os s = (ret, s', effs)"
  shows "sendBuf s' = rest \<or> sendBuf s' = buf1 # rest"
proof -
  obtain r buf2 e2 where sw: "send_switch (sd s) err len buf1 = (r, buf2, e2)"
    by (cases "send_switch (sd s) err len buf1")
  from send_active[OF assms(1,2,3) sw] assms(4) send_switch_result[OF sw]
  show ?thesis by auto
qed

text \<open>
  C6 (as amended). \<open>bufferedBytes()\<close> is the sum, over the queued buffers, of the size of the
  in-memory byte array plus, when the buffer has a file, the total size of the file. The
  cursor is not subtracted: a \<open>send()\<close> call that leaves the head in the queue, however many
  bytes of it were transmitted, leaves \<open>bufferedBytes()\<close> as it was.
\<close>

theorem bufferedBytes_total_sizes:
  assumes "send g os s = (ret, s', effs)" and "length (sendBuf s') = length (sendBuf s)"
  shows "bufferedBytes s =
           (\<Sum>d\<leftarrow>sendBuf s. int (length (arrayBuffer d)) +
              (case bodyFile d of None \<Rightarrow> 0 | Some f \<Rightarrow> int (length (contents f))))
       \<and> bufferedBytes s' = bufferedBytes s"
proof (cases "deleting s \<or> sendBuf s = []")
  case True
  from send_guard[OF True] assms have "s' = s" by simp
  then show ?thesis using bufferedBytes_sum by simp
next
  case False
  then obtain buf rest where nd: "\<not> deleting s" and q: "sendBuf s = buf # rest"
    by (cases "sendBuf s") auto
  obtain err len buf1 e1 where
    lp: "send_loop (sd s) (sendBufSize g) os 0 0 buf [] = (err, len, buf1, e1)"
    by (cases "send_loop (sd s) (sendBufSize g) os 0 0 buf []")
  from send_queue_after[OF nd q lp assms(1)] have "sendBuf s' = rest \<or> sendBuf s' = buf1 # rest"
    .
  with assms(2) q have s': "sendBuf s' = buf1 # rest" by auto
  from send_loop_result[OF lp] have "arrayBuffer buf1 = arrayBuffer buf" "bodyFile buf1 = bodyFile buf"
    by simp_all
  with s' q show ?thesis by (simp add: bufferedBytes_sum)
qed

text \<open>
  C6 at a concrete call: thirteen bytes are queued, four bytes of the head are transmitted,
  and \<open>bufferedBytes()\<close> is 13 before and after.
\<close>

theorem bufferedBytes_total_sizes_witness:
  "send ex_sizes (os_four_then EAGAIN)
     (ex_socket False [createSendBuffer ''0123456789'', createSendBuffer ''abc'']) =
   (0,
    ex_socket False
      [(createSendBuffer ''0123456789'')\<lparr>cursor := 4, accesslogger := \<lparr>responseBytes = 4\<rparr>\<rparr>,
       createSendBuffer ''abc''],
    [TfSend 7 ''0123456789'', TfSend 7 ''456789''])
   \<and> bufferedBytes (ex_socket False [createSendBuffer ''0123456789'', createSendBuffer ''abc'']) = 13
   \<and> bufferedBytes (ex_socket False
      [(createSendBuffer ''0123456789'')\<lparr>cursor := 4, accesslogger := \<lparr>responseBytes = 4\<rparr>\<rparr>,
       createSendBuffer ''abc'']) = 13"
proof -
  have l: "length (sendBuf (ex_socket False
      [(createSendBuffer ''0123456789'')\<lparr>cursor := 4, accesslogger := \<lparr>responseBytes = 4\<rparr>\<rparr>,
       createSendBuffer ''abc''])) =
     length (sendBuf (ex_socket False [createSendBuffer ''0123456789'', createSendBuffer ''abc'']))"
    by (simp add: ex_socket_def)
  from bufferedBytes_total_sizes[OF ex_send_eagain l] ex_send_eagain show ?thesis
    by (simp add: ex_socket_def createSendBuffer_def)
qed

text \<open>
  C6 as stated fails in the middle of a transmission: after four of the ten bytes of the head
  have been sent, \<open>bufferedBytes()\<close> is still 13, while the remaining unsent lengths add up
  to 9.
\<close>

theorem bufferedBytes_ignores_cursor:
  "bufferedBytes (fst (snd (send ex_sizes (os_four_then EAGAIN)
      (ex_socket False [createSendBuffer ''0123456789'', createSendBuffer ''abc''])))) = 13
   \<and> sum_list (map spec_remaining_unsent (sendBuf (fst (snd (send ex_sizes (os_four_then EAGAIN)
      (ex_socket False [createSendBuffer ''0123456789'', createSendBuffer ''abc'']))))))  = 9"
  unfolding ex_send_eagain
  by (simp add: bufferedBytes_def spec_remaining_unsent_def ex_socket_def createSendBuffer_def)

text \<open>
  C7. Once \<open>deleting\<close> is true, \<open>send()\<close> returns 0 with the object unchanged and without
  any effect (no system call, no dequeue), and both overloads of \<open>sendData\<close>, \<open>disconnect\<close>
  and \<open>switchToWebSocket\<close> request nothing from the epoll dispatcher.
\<close>

theorem deleting_stops_new_work:
  assumes "deleting s"
  shows "send g os s = (0, s, [])
       \<and> sendData_file header body autoRemove accessLogger s = []
       \<and> sendData d s = []
       \<and> disconnect s = []
       \<and> switchToWebSocket h s = []"
  using assms
  by (simp add: send_def sendData_file_def sendData_def disconnect_def switchToWebSocket_def
      split: list.split)

text \<open>C7 on a handle marked for deletion that still has a buffer queued.\<close>

theorem deleting_stops_new_work_witness:
  "deleting (ex_socket True [createSendBuffer ''abc''])
   \<and> send ex_sizes os_accept_all (ex_socket True [createSendBuffer ''abc'']) =
       (0, ex_socket True [createSendBuffer ''abc''], [])
   \<and> sendData_file ''HTTP/1.1 200 OK'' None False \<lparr>responseBytes = 0\<rparr>
        (ex_socket True [createSendBuffer ''abc'']) = []
   \<and> sendData ''pong'' (ex_socket True [createSendBuffer ''abc'']) = []
   \<and> disconnect (ex_socket True [createSendBuffer ''abc'']) = []
   \<and> switchToWebSocket ''Upgrade: websocket'' (ex_socket True [createSendBuffer ''abc'']) = []"
proof -
  have h: "deleting (ex_socket True [createSendBuffer ''abc''])"
    by (simp add: ex_socket_def)
  from deleting_stops_new_work[OF h] h show ?thesis by simp
qed

text \<open>For comparison, on a handle that is not marked for deletion each request is delegated.\<close>

lemma active_delegates:
  "\<not> deleting s \<Longrightarrow>
     sendData_file header body autoRemove accessLogger s =
       [SetSendDataFile header body autoRemove accessLogger]
     \<and> sendData d s = [SetSendData d] \<and> disconnect s = [SetDisconnect]
     \<and> switchToWebSocket h s = [SetSwitchToWebSocket h]"
  by (simp add: sendData_file_def sendData_def disconnect_def switchToWebSocket_def)

section \<open>Properties of recv\<close>

lemma recv_loop_unfold:
  "recv_loop os fd sz i rb =
     (if fst (os i fd sz) \<le> 0 then Some (fst (snd (os i fd sz)), rb, i)
      else recv_loop os fd sz (Suc i)
             (seekRecvBuffer (fst (os i fd sz)) (snd (snd (os i fd sz))) rb))"
  by (subst recv_loop.simps) (simp split: prod.split)

lemma recv_loop_stops:
  "i \<le> k \<Longrightarrow> \<forall>j. i \<le> j \<and> j < k \<longrightarrow> 0 < fst (os j fd sz) \<Longrightarrow> fst (os k fd sz) \<le> 0 \<Longrightarrow>
     recv_loop os fd sz i rb = Some (fst (snd (os k fd sz)), rb @ received os fd sz i k, k)"
proof (induction "k - i" arbitrary: i rb)
  case 0
  then have "i = k" by simp
  with 0 show ?case
    by (subst recv_loop_unfold) (simp add: received_def)
next
  case (Suc n)
  then have lt: "i < k" by simp
  with Suc.prems have pos: "0 < fst (os i fd sz)" by simp
  let ?rb = "seekRecvBuffer (fst (os i fd sz)) (snd (snd (os i fd sz))) rb"
  from Suc.hyps(2) lt have n: "n = k - Suc i" by simp
  have ih: "recv_loop os fd sz (Suc i) ?rb =
      Some (fst (snd (os k fd sz)), ?rb @ received os fd sz (Suc i) k, k)"
    using Suc.hyps(1)[OF n] lt Suc.prems by simp
  have "received os fd sz i k =
      take (nat (fst (os i fd sz))) (snd (snd (os i fd sz))) @ received os fd sz (Suc i) k"
    using lt by (simp add: received_def upt_conv_Cons split: prod.split)
  with ih pos show ?case
    by (subst recv_loop_unfold) (simp add: seekRecvBuffer_def)
qed




lemma recv_loop_Some:
  assumes "recv_loop os fd sz i rb = Some y"
  shows "\<exists>j\<ge>i. fst (os j fd sz) \<le> 0"
proof (rule recv_loop.raw_induct[where P = "\<lambda>os fd sz i rb y. \<exists>j\<ge>i. fst (os j fd sz) \<le> 0",
      OF _ assms])
  fix f :: "recv_os \<Rightarrow> int \<Rightarrow> int \<Rightarrow> nat \<Rightarrow> QByteArray \<Rightarrow> (int \<times> QByteArray \<times> nat) option"
  fix os :: recv_os and fd sz :: int and i :: nat and rb :: QByteArray
    and y :: "int \<times> QByteArray \<times> nat"
  assume ih: "\<And>os fd sz i rb y. f os fd sz i rb = Some y \<Longrightarrow> \<exists>j\<ge>i. fst (os j fd sz) \<le> 0"
    and body: "(case os i fd sz of (len, err, written) \<Rightarrow>
        if len \<le> 0 then Some (err, rb, i)
        else f os fd sz (Suc i) (seekRecvBuffer len written rb)) = Some y"
  obtain len err w where r: "os i fd sz = (len, err, w)" by (cases "os i fd sz")
  show "\<exists>j\<ge>i. fst (os j fd sz) \<le> 0"
  proof (cases "len \<le> 0")
    case True
    with r have "fst (os i fd sz) \<le> 0" by simp
    then show ?thesis by blast
  next
    case False
    with body r have "f os fd sz (Suc i) (seekRecvBuffer len w rb) = Some y" by simp
    from ih[OF this] obtain j where "Suc i \<le> j" "fst (os j fd sz) \<le> 0" by blast
    then have "i \<le> j" by simp
    with \<open>fst (os j fd sz) \<le> 0\<close> show ?thesis by blast
  qed
qed

lemma recv_loop_diverges:
  assumes "\<forall>j. 0 < fst (os j fd sz)"
  shows "recv_loop os fd sz i rb = None"
proof (cases "recv_loop os fd sz i rb")
  case None
  then show ?thesis .
next
  case (Some y)
  from recv_loop_Some[OF this] obtain j where "fst (os j fd sz) \<le> 0" by blast
  moreover from assms have "0 < fst (os j fd sz)" by blast
  ultimately show ?thesis by linarith
qed


lemma recv_returns:
  assumes "\<forall>j<k. 0 < fst (os j (sd s) (recvBufSize g))"
    and "fst (os k (sd s) (recvBufSize g)) \<le> 0"
  shows "recv g os s =
     Some (fst (recv_switch (sd s) (fst (snd (os k (sd s) (recvBufSize g))))),
           s\<lparr>recvBuffer := recvBuffer s @ received os (sd s) (recvBufSize g) 0 k\<rparr>,
           replicate (Suc k) (TfRecv (sd s) (recvBufSize g)) @
           snd (recv_switch (sd s) (fst (snd (os k (sd s) (recvBufSize g))))))"
proof -
  from assms(1) have "\<forall>j. 0 \<le> j \<and> j < k \<longrightarrow> 0 < fst (os j (sd s) (recvBufSize g))" by simp
  with recv_loop_stops[of 0 k os "sd s" "recvBufSize g" "recvBuffer s"] assms(2)
  show ?thesis
    by (simp add: recv_def split: prod.split)
qed

text \<open>
  C3. \<open>recv()\<close> returns at the first read whose length is not positive, after exactly the
  reads before it have succeeded and with the bytes of each of them appended, in order, to
  the receive buffer; when every read succeeds it never returns. It then classifies the
  \<open>errno\<close> captured at that read: \<open>EAGAIN\<close> gives 0 and no log line; 0 or \<open>ECONNRESET\<close>
  gives -1 and one debug line; any other code gives -1 and one error line. A zero-length
  read comes under the code 0, the value that \<open>errno\<close> was given before the call, which
  is the last clause. In every case the object is as before except for the receive buffer:
  the descriptor stays open.
\<close>

theorem recv_drains_then_classifies:
  "((\<forall>j<k. 0 < fst (os j (sd s) (recvBufSize g))) \<and> fst (os k (sd s) (recvBufSize g)) \<le> 0 \<and>
      err = fst (snd (os k (sd s) (recvBufSize g))) \<longrightarrow>
      recv g os s =
         Some (if err = EAGAIN then 0 else -1,
               s\<lparr>recvBuffer := recvBuffer s @ received os (sd s) (recvBufSize g) 0 k\<rparr>,
               replicate (Suc k) (TfRecv (sd s) (recvBufSize g)) @
               (if err = EAGAIN then []
                else if err = 0 \<or> err = ECONNRESET
                  then [SystemLog Debug ''Socket disconnected : sd:%d  errno:%d'' [I (sd s), I err]]
                else [SystemLog Error ''Failed recv : sd:%d  errno:%d'' [I (sd s), I err]])))
   \<and> ((\<forall>j. 0 < fst (os j (sd s) (recvBufSize g))) \<longrightarrow> recv g os s = None)
   \<and> ((\<forall>j<k. 0 < fst (os j (sd s) (recvBufSize g))) \<and>
      fst (os k (sd s) (recvBufSize g)) = 0 \<and> fst (snd (os k (sd s) (recvBufSize g))) = 0 \<longrightarrow>
      recv g os s =
         Some (-1, s\<lparr>recvBuffer := recvBuffer s @ received os (sd s) (recvBufSize g) 0 k\<rparr>,
               replicate (Suc k) (TfRecv (sd s) (recvBufSize g)) @
               [SystemLog Debug ''Socket disconnected : sd:%d  errno:%d'' [I (sd s), I 0]]))"
proof (intro conjI impI)
  assume a: "(\<forall>j<k. 0 < fst (os j (sd s) (recvBufSize g))) \<and>
      fst (os k (sd s) (recvBufSize g)) \<le> 0 \<and> err = fst (snd (os k (sd s) (recvBufSize g)))"
  then have r: "recv g os s =
     Some (fst (recv_switch (sd s) err),
           s\<lparr>recvBuffer := recvBuffer s @ received os (sd s) (recvBufSize g) 0 k\<rparr>,
           replicate (Suc k) (TfRecv (sd s) (recvBufSize g)) @ snd (recv_switch (sd s) err))"
    using recv_returns[of k os s g] by simp
  show "recv g os s =
         Some (if err = EAGAIN then 0 else -1,
               s\<lparr>recvBuffer := recvBuffer s @ received os (sd s) (recvBufSize g) 0 k\<rparr>,
               replicate (Suc k) (TfRecv (sd s) (recvBufSize g)) @
               (if err = EAGAIN then []
                else if err = 0 \<or> err = ECONNRESET
                  then [SystemLog Debug ''Socket disconnected : sd:%d  errno:%d'' [I (sd s), I err]]
                else [SystemLog Error ''Failed recv : sd:%d  errno:%d'' [I (sd s), I err]]))"
    unfolding r by (simp add: recv_switch_def)
next
  assume "\<forall>j. 0 < fst (os j (sd s) (recvBufSize g))"
  with recv_loop_diverges[of os "sd s" "recvBufSize g" 0 "recvBuffer s"]
  show "recv g os s = None"
    by (simp add: recv_def)
next
  assume a: "(\<forall>j<k. 0 < fst (os j (sd s) (recvBufSize g))) \<and>
      fst (os k (sd s) (recvBufSize g)) = 0 \<and> fst (snd (os k (sd s) (recvBufSize g))) = 0"
  then show "recv g os s =
         Some (-1, s\<lparr>recvBuffer := recvBuffer s @ received os (sd s) (recvBufSize g) 0 k\<rparr>,
               replicate (Suc k) (TfRecv (sd s) (recvBufSize g)) @
               [SystemLog Debug ''Socket disconnected : sd:%d  errno:%d'' [I (sd s), I 0]])"
    using recv_returns[of k os s g] by (simp add: recv_switch_def errno_distinct)
qed

lemma ex_recv:
  "recv ex_sizes (os_two_reads_then len e) (ex_socket False []) =
     Some (fst (recv_switch 7 e),
           (ex_socket False [])\<lparr>recvBuffer := ''GET /index.html HTTP/1.1''\<rparr>,
           [TfRecv 7 4096, TfRecv 7 4096, TfRecv 7 4096] @ snd (recv_switch 7 e))"
  if "len \<le> 0"
  using that
  by (simp add: recv_def recv_loop_unfold os_two_reads_then_def ex_socket_def ex_sizes_def
      seekRecvBuffer_def split: prod.split)

text \<open>
  C3 at concrete calls: two reads deliver data and the third answers \<open>EAGAIN\<close>, so \<open>recv()\<close>
  returns 0 after three reads with both segments in the buffer; the same with a third read
  of length zero, which returns -1 with a debug line and both segments in the buffer; against
  a peer that never stops delivering it does not return.
\<close>

theorem recv_drains_then_classifies_witness:
  "0 < fst (os_two_reads_then (-1) EAGAIN 0 7 4096)
   \<and> 0 < fst (os_two_reads_then (-1) EAGAIN 1 7 4096)
   \<and> fst (os_two_reads_then (-1) EAGAIN 2 7 4096) \<le> 0
   \<and> recv ex_sizes (os_two_reads_then (-1) EAGAIN) (ex_socket False []) =
       Some (0, (ex_socket False [])\<lparr>recvBuffer := ''GET /index.html HTTP/1.1''\<rparr>,
             [TfRecv 7 4096, TfRecv 7 4096, TfRecv 7 4096])
   \<and> os_two_reads_then 0 0 2 7 4096 = (0, 0, [])
   \<and> recv ex_sizes (os_two_reads_then 0 0) (ex_socket False []) =
       Some (-1, (ex_socket False [])\<lparr>recvBuffer := ''GET /index.html HTTP/1.1''\<rparr>,
             [TfRecv 7 4096, TfRecv 7 4096, TfRecv 7 4096,
              SystemLog Debug ''Socket disconnected : sd:%d  errno:%d'' [I 7, I 0]])
   \<and> (\<forall>j. 0 < fst (os_endless j 7 4096))
   \<and> recv ex_sizes os_endless (ex_socket False []) = None"
proof -
  have sd: "sd (ex_socket False []) = 7" "recvBufSize ex_sizes = 4096"
    "recvBuffer (ex_socket False []) = ''GET ''"
    by (simp_all add: ex_socket_def ex_sizes_def)
  have h1: "\<forall>j<2. 0 < fst (os_two_reads_then len e j 7 4096)" for len e
    by (simp add: os_two_reads_then_def)
  have h2: "fst (os_two_reads_then (-1) EAGAIN 2 7 4096) \<le> 0"
    by (simp add: os_two_reads_then_def)
  have h3: "\<forall>j. 0 < fst (os_endless j 7 4096)"
    by (simp add: os_endless_def)
  have z: "os_two_reads_then 0 0 2 7 4096 = (0, 0, [])"
    by (simp add: os_two_reads_then_def)
  have rc: "received (os_two_reads_then len e) 7 4096 0 2 = ''/index.html HTTP/1.1''" for len e
    by (simp add: received_def os_two_reads_then_def upt_conv_Cons)
  from recv_drains_then_classifies[of 2 "os_two_reads_then (-1) EAGAIN" "ex_socket False []"
      ex_sizes EAGAIN] h1[of "-1" EAGAIN] h2
  have c1: "recv ex_sizes (os_two_reads_then (-1) EAGAIN) (ex_socket False []) =
       Some (0, (ex_socket False [])\<lparr>recvBuffer := ''GET /index.html HTTP/1.1''\<rparr>,
             [TfRecv 7 4096, TfRecv 7 4096, TfRecv 7 4096])"
    by (simp add: sd rc os_two_reads_then_def numeral_3_eq_3)
  from recv_drains_then_classifies[of 2 "os_two_reads_then 0 0" "ex_socket False []"
      ex_sizes 0] h1[of 0 0] z
  have c2: "recv ex_sizes (os_two_reads_then 0 0) (ex_socket False []) =
       Some (-1, (ex_socket False [])\<lparr>recvBuffer := ''GET /index.html HTTP/1.1''\<rparr>,
             [TfRecv 7 4096, TfRecv 7 4096, TfRecv 7 4096,
              SystemLog Debug ''Socket disconnected : sd:%d  errno:%d'' [I 7, I 0]])"
    by (simp add: sd rc numeral_3_eq_3 errno_distinct)
  from recv_drains_then_classifies[of 2 os_endless "ex_socket False []" ex_sizes 0] h3
  have c3: "recv ex_sizes os_endless (ex_socket False []) = None"
    by (simp add: sd)
  from h1[of "-1" EAGAIN] h2 h3 z c1 c2 c3 show ?thesis by simp
qed

text \<open>
  C10. Whatever the outcome, the receive buffer after \<open>recv()\<close> is the buffer before it
  followed by the bytes of the reads that succeeded: earlier contents are kept, and nothing
  is taken back when the call returns -1.
\<close>

theorem recv_only_appends:
  assumes "\<forall>j<k. 0 < fst (os j (sd s) (recvBufSize g))"
    and "fst (os k (sd s) (recvBufSize g)) \<le> 0"
  shows "\<exists>ret effs.
     recv g os s =
       Some (ret, s\<lparr>recvBuffer := recvBuffer s @ received os (sd s) (recvBufSize g) 0 k\<rparr>, effs)
     \<and> (ret = 0 \<or> ret = -1)"
  using recv_returns[of k os s g] assms by (simp add: recv_switch_def)

text \<open>
  C10 at a concrete call: two reads deliver data, the third fails with \<open>ECONNRESET\<close>; the
  call returns -1 and the buffer holds the old bytes followed by both segments.
\<close>

theorem recv_only_appends_witness:
  "0 < fst (os_two_reads_then (-1) ECONNRESET 0 7 4096)
   \<and> 0 < fst (os_two_reads_then (-1) ECONNRESET 1 7 4096)
   \<and> fst (os_two_reads_then (-1) ECONNRESET 2 7 4096) \<le> 0
   \<and> received (os_two_reads_then (-1) ECONNRESET) 7 4096 0 2 = ''/index.html HTTP/1.1''
   \<and> recvBuffer (ex_socket False []) = ''GET ''
   \<and> recv ex_sizes (os_two_reads_then (-1) ECONNRESET) (ex_socket False []) =
       Some (-1, (ex_socket False [])\<lparr>recvBuffer := ''GET /index.html HTTP/1.1''\<rparr>,
             [TfRecv 7 4096, TfRecv 7 4096, TfRecv 7 4096,
              SystemLog Debug ''Socket disconnected : sd:%d  errno:%d'' [I 7, I ECONNRESET]])"
proof -
  have sd: "sd (ex_socket False []) = 7" "recvBufSize ex_sizes = 4096"
    by (simp_all add: ex_socket_def ex_sizes_def)
  have h1: "\<forall>j<2. 0 < fst (os_two_reads_then (-1) ECONNRESET j (sd (ex_socket False []))
      (recvBufSize ex_sizes))"
    by (simp add: os_two_reads_then_def)
  have h2: "fst (os_two_reads_then (-1) ECONNRESET 2 (sd (ex_socket False []))
      (recvBufSize ex_sizes)) \<le> 0"
    by (simp add: os_two_reads_then_def)
  have r: "received (os_two_reads_then (-1) ECONNRESET) 7 4096 0 2 = ''/index.html HTTP/1.1''"
    by (simp add: received_def os_two_reads_then_def upt_conv_Cons)
  have b: "recvBuffer (ex_socket False []) = ''GET ''"
    by (simp add: ex_socket_def)
  from recv_only_appends[of 2 "os_two_reads_then (-1) ECONNRESET" "ex_socket False []" ex_sizes]
    h1 h2 r b ex_recv[of "-1" ECONNRESET] show ?thesis
    by (simp add: sd recv_switch_def errno_distinct)
qed

section \<open>Properties of accept and create\<close>

lemma initBuffer_once:
  "sendBufSize g \<noteq> 0 \<Longrightarrow> initBuffer env d g = (g, [])"
  by (simp add: initBuffer_def)

lemma initBuffer_first:
  "sendBufSize g = 0 \<Longrightarrow>
     sendBufSize (fst (initBuffer env d g)) =
       (if fst (sndbuf_res env) < 0 then 131072 else snd (sndbuf_res env))
     \<and> recvBufSize (fst (initBuffer env d g)) =
       (if fst (rcvbuf_res env) < 0 then 131072 else snd (rcvbuf_res env))"
  by (simp add: initBuffer_def BUF_SIZE_def)

text \<open>
  C8 (as amended: a handle is constructed when the accepted descriptor is strictly positive).
  When \<open>tf_accept4\<close> fails with \<open>EAGAIN\<close>, \<open>accept\<close> returns no handle and logs nothing;
  when it fails with another code, \<open>accept\<close> logs one warning and returns no handle; when it
  yields a strictly positive descriptor, \<open>accept\<close> returns a new handle on that descriptor
  with the captured peer address, and \<open>initBuffer\<close> has been run on the descriptor.
\<close>

theorem accept_outcomes:
  "(actfd env < 0 \<and> accept_errno env = EAGAIN \<longrightarrow>
      accept env g l = (None, g, [TfAccept4 l]))
   \<and> (actfd env < 0 \<and> accept_errno env \<noteq> EAGAIN \<longrightarrow>
      accept env g l =
        (None, g, [TfAccept4 l, SystemLog Warn ''Failed accept.  errno:%d'' [I (accept_errno env)]]))
   \<and> (0 < actfd env \<longrightarrow>
      accept env g l =
        (Some \<lparr>deleting = False, myWorkerCounter = 0, sd = actfd env,
               uuid = mid (new_uuid env) 1 (int (length (new_uuid env)) - 2),
               clientAddr = peer env, sendBuf = [], recvBuffer = [], deferredDelete = False\<rparr>,
         fst (initBuffer env (actfd env) g),
         [TfAccept4 l,
          SystemLog Debug ''TEpollSocket  id:%s''
            [S (mid (new_uuid env) 1 (int (length (new_uuid env)) - 2))],
          MoveToThread] @ snd (initBuffer env (actfd env) g)))"
  by (simp add: accept_def create_def Let_def TEpollSocket_ctor_def split: prod.split)

text \<open>
  C8 at concrete calls: a failure with \<open>EAGAIN\<close>, a failure with \<open>EMFILE\<close> (24), and a
  success on descriptor 9 with the chunk sizes not yet initialized.
\<close>

theorem accept_outcomes_witness:
  "actfd (ex_accept_env (-1) EAGAIN) < 0
   \<and> accept (ex_accept_env (-1) EAGAIN) \<lparr>sendBufSize = 0, recvBufSize = 0\<rparr> 3 =
       (None, \<lparr>sendBufSize = 0, recvBufSize = 0\<rparr>, [TfAccept4 3])
   \<and> accept (ex_accept_env (-1) 24) \<lparr>sendBufSize = 0, recvBufSize = 0\<rparr> 3 =
       (None, \<lparr>sendBufSize = 0, recvBufSize = 0\<rparr>,
        [TfAccept4 3, SystemLog Warn ''Failed accept.  errno:%d'' [I 24]])
   \<and> accept (ex_accept_env 9 0) \<lparr>sendBufSize = 0, recvBufSize = 0\<rparr> 3 =
       (Some \<lparr>deleting = False, myWorkerCounter = 0, sd = 9, uuid = ''6fa459ea'',
              clientAddr = ''10.0.0.1'', sendBuf = [], recvBuffer = [], deferredDelete = False\<rparr>,
        \<lparr>sendBufSize = 16384, recvBufSize = 131072\<rparr>,
        [TfAccept4 3, SystemLog Debug ''TEpollSocket  id:%s'' [S ''6fa459ea''], MoveToThread,
         Getsockopt 9 ''SO_SNDBUF'', Getsockopt 9 ''SO_RCVBUF''])"
  using accept_outcomes[of "ex_accept_env (-1) EAGAIN" "\<lparr>sendBufSize = 0, recvBufSize = 0\<rparr>" 3]
    accept_outcomes[of "ex_accept_env (-1) 24" "\<lparr>sendBufSize = 0, recvBufSize = 0\<rparr>" 3]
    accept_outcomes[of "ex_accept_env 9 0" "\<lparr>sendBufSize = 0, recvBufSize = 0\<rparr>" 3]
  by (simp add: ex_accept_env_def EAGAIN_def initBuffer_def BUF_SIZE_def mid_def)

text \<open>
  C8 as stated, "on success constructs a Socket Handle", fails when the accept primitive
  succeeds with descriptor 0: \<open>accept\<close> returns no handle, and the chunk sizes stay
  uninitialized.
\<close>

theorem accept_descriptor_zero_no_handle:
  "\<not> actfd (ex_accept_env 0 0) < 0
   \<and> accept (ex_accept_env 0 0) \<lparr>sendBufSize = 0, recvBufSize = 0\<rparr> 3 =
       (None, \<lparr>sendBufSize = 0, recvBufSize = 0\<rparr>, [TfAccept4 3])"
  by (simp add: accept_def create_def ex_accept_env_def)

text \<open>
  C9. For a descriptor that is not strictly positive, \<open>create\<close> returns no handle, leaves the
  chunk sizes as they are and has no effect at all; so an \<open>accept\<close> whose primitive yields
  descriptor 0 returns no handle and does nothing beyond the \<open>tf_accept4\<close> call.
\<close>

theorem create_rejects_nonpositive:
  assumes "d \<le> 0"
  shows "create env g d address = (None, g, [])
       \<and> accept (env\<lparr>actfd := 0\<rparr>) g l = (None, g, [TfAccept4 l])"
  using assms by (simp add: create_def accept_def)

text \<open>C9 for the descriptors 0 and -5, and for an \<open>accept\<close> that yields descriptor 0.\<close>

theorem create_rejects_nonpositive_witness:
  "(0::int) \<le> 0
   \<and> create (ex_accept_env 0 0) \<lparr>sendBufSize = 0, recvBufSize = 0\<rparr> 0 ''10.0.0.1'' =
       (None, \<lparr>sendBufSize = 0, recvBufSize = 0\<rparr>, [])
   \<and> create (ex_accept_env 0 0) \<lparr>sendBufSize = 0, recvBufSize = 0\<rparr> (-5) ''10.0.0.1'' =
       (None, \<lparr>sendBufSize = 0, recvBufSize = 0\<rparr>, [])
   \<and> accept ((ex_accept_env 9 0)\<lparr>actfd := 0\<rparr>) \<lparr>sendBufSize = 0, recvBufSize = 0\<rparr> 3 =
       (None, \<lparr>sendBufSize = 0, recvBufSize = 0\<rparr>, [TfAccept4 3])"
proof -
  have h0: "(0::int) \<le> 0" and h5: "(-5::int) \<le> 0" by simp_all
  from create_rejects_nonpositive[OF h0, of "ex_accept_env 0 0" "\<lparr>sendBufSize = 0, recvBufSize = 0\<rparr>"
      "''10.0.0.1''" 3]
    create_rejects_nonpositive[OF h5, of "ex_accept_env 0 0" "\<lparr>sendBufSize = 0, recvBufSize = 0\<rparr>"
      "''10.0.0.1''" 3]
    create_rejects_nonpositive[OF h0, of "ex_accept_env 9 0" "\<lparr>sendBufSize = 0, recvBufSize = 0\<rparr>"
      "''10.0.0.1''" 3]
  show ?thesis by simp
qed

section \<open>Properties of deleteLater\<close>

text \<open>
  C2 (as amended: the call requests the deletion, it does not carry it out).
  \<open>deleteLater()\<close> sets \<open>deleting\<close> and leaves the descriptor and the send queue as they
  are: it issues no \<open>tf_close\<close> and deletes no buffer. A second call returns the same object
  as the first and only repeats what the first did outside the object (the debug line and,
  with no worker, the request to Qt). When \<open>myWorkerCounter\<close> is 0 the call requests the
  deferred deletion of the object, and when the event loop carries it out the destructor
  closes the descriptor (a \<open>tf_close\<close> when it was open, after which it is 0) and deletes
  every queued send buffer in queue order, without any access-log write. When
  \<open>myWorkerCounter\<close> is not 0 the call requests nothing, and unless a deletion was already
  pending the event loop does nothing to the object.
\<close>

theorem deleteLater_marks_and_requests:
  "deleteLater s =
     (s\<lparr>deleting := True, deferredDelete := (deferredDelete s \<or> myWorkerCounter s = 0)\<rparr>,
      [SystemLog Debug ''TEpollSocket::deleteLater  countWorker:%d'' [I (myWorkerCounter s)]] @
      (if myWorkerCounter s = 0 then [QObjectDeleteLater] else []))
   \<and> sd (fst (deleteLater s)) = sd s \<and> sendBuf (fst (deleteLater s)) = sendBuf s
   \<and> deleteLater (fst (deleteLater s)) = deleteLater s
   \<and> (myWorkerCounter s = 0 \<longrightarrow>
        deliverDeferredDelete (fst (deleteLater s)) =
          Some (s\<lparr>deleting := True, deferredDelete := True,
                  sd := (if 0 < sd s then 0 else sd s), sendBuf := []\<rparr>,
                [SystemLog Debug ''TEpollSocket::destructor'' []] @
                (if 0 < sd s then [TfClose (sd s)] else []) @
                map DeleteSendBuffer (sendBuf s)))
   \<and> (myWorkerCounter s \<noteq> 0 \<and> \<not> deferredDelete s \<longrightarrow>
        deliverDeferredDelete (fst (deleteLater s)) = None)"
proof -
  have d: "deleteLater s =
     (s\<lparr>deleting := True, deferredDelete := (deferredDelete s \<or> myWorkerCounter s = 0)\<rparr>,
      [SystemLog Debug ''TEpollSocket::deleteLater  countWorker:%d'' [I (myWorkerCounter s)]] @
      (if myWorkerCounter s = 0 then [QObjectDeleteLater] else []))"
    by (cases "myWorkerCounter s = 0") (simp_all add: deleteLater_def Let_def)
  have i: "deleteLater (fst (deleteLater s)) = deleteLater s"
    by (cases "myWorkerCounter s = 0") (simp_all add: deleteLater_def Let_def)
  have z: "myWorkerCounter s = 0 \<longrightarrow>
        deliverDeferredDelete (fst (deleteLater s)) =
          Some (s\<lparr>deleting := True, deferredDelete := True,
                  sd := (if 0 < sd s then 0 else sd s), sendBuf := []\<rparr>,
                [SystemLog Debug ''TEpollSocket::destructor'' []] @
                (if 0 < sd s then [TfClose (sd s)] else []) @
                map DeleteSendBuffer (sendBuf s))"
    by (simp add: deleteLater_def deliverDeferredDelete_def destructor_def close_def Let_def)
  have n: "myWorkerCounter s \<noteq> 0 \<and> \<not> deferredDelete s \<longrightarrow>
        deliverDeferredDelete (fst (deleteLater s)) = None"
    by (simp add: deleteLater_def deliverDeferredDelete_def Let_def)
  from d i z n show ?thesis by simp
qed

text \<open>
  C2 on a handle with one buffer queued: with no worker the deletion is requested and, once
  carried out, closes descriptor 7 and deletes the buffer; with one worker only the flag
  changes and nothing is pending.
\<close>

theorem deleteLater_marks_and_requests_witness:
  "myWorkerCounter ((ex_socket False [createSendBuffer ''abc''])\<lparr>myWorkerCounter := 0\<rparr>) = 0
   \<and> deliverDeferredDelete
       (fst (deleteLater ((ex_socket False [createSendBuffer ''abc''])\<lparr>myWorkerCounter := 0\<rparr>))) =
       Some ((ex_socket True [])\<lparr>myWorkerCounter := 0, sd := 0, deferredDelete := True\<rparr>,
             [SystemLog Debug ''TEpollSocket::destructor'' [], TfClose 7,
              DeleteSendBuffer (createSendBuffer ''abc'')])
   \<and> myWorkerCounter (ex_socket False [createSendBuffer ''abc'']) \<noteq> 0
   \<and> \<not> deferredDelete (ex_socket False [createSendBuffer ''abc''])
   \<and> deleteLater (ex_socket False [createSendBuffer ''abc'']) =
       (ex_socket True [createSendBuffer ''abc''],
        [SystemLog Debug ''TEpollSocket::deleteLater  countWorker:%d'' [I 1]])
   \<and> deliverDeferredDelete (fst (deleteLater (ex_socket False [createSendBuffer ''abc'']))) = None"
proof -
  let ?s0 = "(ex_socket False [createSendBuffer ''abc''])\<lparr>myWorkerCounter := 0\<rparr>"
  let ?s1 = "ex_socket False [createSendBuffer ''abc'']"
  have h0: "myWorkerCounter ?s0 = 0" by simp
  have h1: "myWorkerCounter ?s1 \<noteq> 0" "\<not> deferredDelete ?s1" by (simp_all add: ex_socket_def)
  note t0 = deleteLater_marks_and_requests[of ?s0]
  note t1 = deleteLater_marks_and_requests[of ?s1]
  from t0 h0 have "deliverDeferredDelete (fst (deleteLater ?s0)) =
          Some (?s0\<lparr>deleting := True, deferredDelete := True,
                  sd := (if 0 < sd ?s0 then 0 else sd ?s0), sendBuf := []\<rparr>,
                [SystemLog Debug ''TEpollSocket::destructor'' []] @
                (if 0 < sd ?s0 then [TfClose (sd ?s0)] else []) @
                map DeleteSendBuffer (sendBuf ?s0))"
    by blast
  then have c0: "deliverDeferredDelete (fst (deleteLater ?s0)) =
       Some ((ex_socket True [])\<lparr>myWorkerCounter := 0, sd := 0, deferredDelete := True\<rparr>,
             [SystemLog Debug ''TEpollSocket::destructor'' [], TfClose 7,
              DeleteSendBuffer (createSendBuffer ''abc'')])"
    by (simp add: ex_socket_def)
  from t1 have "deleteLater ?s1 =
     (?s1\<lparr>deleting := True, deferredDelete := (deferredDelete ?s1 \<or> myWorkerCounter ?s1 = 0)\<rparr>,
      [SystemLog Debug ''TEpollSocket::deleteLater  countWorker:%d'' [I (myWorkerCounter ?s1)]] @
      (if myWorkerCounter ?s1 = 0 then [QObjectDeleteLater] else []))"
    by blast
  then have c1: "deleteLater ?s1 =
       (ex_socket True [createSendBuffer ''abc''],
        [SystemLog Debug ''TEpollSocket::deleteLater  countWorker:%d'' [I 1]])"
    by (simp add: ex_socket_def)
  from t1 h1 have c2: "deliverDeferredDelete (fst (deleteLater ?s1)) = None"
    by blast
  from h0 h1 c0 c1 c2 show ?thesis by blast
qed

text \<open>
  C2 as stated, "destruction proceeds immediately, the descriptor is closed and every queued
  Outbound Buffer is destroyed", fails of the call itself: with no worker holding the handle,
  \<open>deleteLater()\<close> returns with descriptor 7 still open and the buffer still queued, having
  written the debug line and asked Qt for the deferred deletion, and nothing else.
\<close>

theorem deleteLater_closes_nothing:
  "myWorkerCounter ((ex_socket False [createSendBuffer ''abc''])\<lparr>myWorkerCounter := 0\<rparr>) = 0
   \<and> sd (fst (deleteLater ((ex_socket False [createSendBuffer ''abc''])\<lparr>myWorkerCounter := 0\<rparr>))) = 7
   \<and> sendBuf (fst (deleteLater ((ex_socket False [createSendBuffer ''abc''])\<lparr>myWorkerCounter := 0\<rparr>))) =
       [createSendBuffer ''abc'']
   \<and> snd (deleteLater ((ex_socket False [createSendBuffer ''abc''])\<lparr>myWorkerCounter := 0\<rparr>)) =
       [SystemLog Debug ''TEpollSocket::deleteLater  countWorker:%d'' [I 0], QObjectDeleteLater]"
  by (simp add: deleteLater_def ex_socket_def Let_def)

end
